theory Spec2Isabelle
  imports Complex_Main "HOL-Library.Sublist"
begin

section \<open>JavaScript values\<close>

text \<open>
  The registration handler is the exported \<^verbatim>\<open>POST\<close> function of a Next.js route. It
  exists in two variants: \<^verbatim>\<open>src/unnamed/part_000\<close> (Supabase client, verification code
  and e-mail) and \<^verbatim>\<open>src/app/api/auth/register/route.ts\<close> (Drizzle client). Both share
  one \<^verbatim>\<open>catch\<close> block, which inspects whatever value was thrown. A thrown value
  can be any JavaScript value, so the model has a datatype of the plain data values:
  \<^verbatim>\<open>undefined\<close>, \<^verbatim>\<open>null\<close>, booleans, integer numbers, strings, arrays and
  objects given by their own properties in order. Function values, symbols and
  non-integer numbers are outside this universe.
\<close>

datatype js_value =
    Undefined
  | Null
  | Bool bool
  | Num int
  | Str string
  | Arr "js_value list"
  | Obj "(string \<times> js_value) list"

text \<open>Truthiness, as \<^verbatim>\<open>if (x)\<close>, \<^verbatim>\<open>!x\<close> and \<^verbatim>\<open>x || y\<close> test it.\<close>

fun truthy :: "js_value \<Rightarrow> bool" where
  "truthy Undefined = False"
| "truthy Null = False"
| "truthy (Bool b) = b"
| "truthy (Num n) = (n \<noteq> 0)"
| "truthy (Str s) = (s \<noteq> [])"
| "truthy (Arr xs) = True"
| "truthy (Obj ps) = True"

fun nullish :: "js_value \<Rightarrow> bool" where
  "nullish Undefined = True"
| "nullish Null = True"
| "nullish v = False"

text \<open>
  The engine's \<^verbatim>\<open>TypeError\<close>, as the object a \<^verbatim>\<open>catch\<close> would see: its
  \<^verbatim>\<open>name\<close> and its \<^verbatim>\<open>message\<close> (the text is V8's, which puts the property
  name between apostrophes).
\<close>

definition TypeError :: "string \<Rightarrow> js_value" where
  "TypeError m = Obj [(''name'', Str ''TypeError''), (''message'', Str m)]"

text \<open>
  Property read \<^verbatim>\<open>v.k\<close> for the property names the handlers read (\<^verbatim>\<open>name\<close>,
  \<^verbatim>\<open>message\<close>, \<^verbatim>\<open>issues\<close>, \<^verbatim>\<open>id\<close>, \<^verbatim>\<open>email\<close>), none of which a primitive's or
  an array's prototype defines: on \<^verbatim>\<open>null\<close> and \<^verbatim>\<open>undefined\<close> the read throws a
  TypeError, on an object it is the property's value when the object has it, and
  \<^verbatim>\<open>undefined\<close> everywhere else.
\<close>

definition own_property :: "(string \<times> js_value) list \<Rightarrow> string \<Rightarrow> js_value" where
  "own_property ps k = (case map_of ps k of None \<Rightarrow> Undefined | Some v \<Rightarrow> v)"

definition quoted :: "string \<Rightarrow> string" where
  "quoted k = CHR 0x27 # k @ [CHR 0x27]"

fun get_prop :: "js_value \<Rightarrow> string \<Rightarrow> js_value + js_value" where
  "get_prop Undefined k =
     Inl (TypeError (''Cannot read properties of undefined (reading '' @ quoted k @ '')''))"
| "get_prop Null k =
     Inl (TypeError (''Cannot read properties of null (reading '' @ quoted k @ '')''))"
| "get_prop (Obj ps) k = Inr (own_property ps k)"
| "get_prop v k = Inr Undefined"

text \<open>\<^verbatim>\<open>String.prototype.includes\<close>: the pattern occurs as a contiguous run.\<close>

fun str_includes :: "string \<Rightarrow> string \<Rightarrow> bool" where
  "str_includes [] p = (p = [])"
| "str_includes (c # cs) p = (prefix p (c # cs) \<or> str_includes cs p)"

text \<open>
  The call \<^verbatim>\<open>m?.includes(p)\<close> with a string literal \<^verbatim>\<open>p\<close>. Optional chaining
  yields \<^verbatim>\<open>undefined\<close> when \<^verbatim>\<open>m\<close> is \<^verbatim>\<open>null\<close> or \<^verbatim>\<open>undefined\<close>. A string
  answers by substring search, an array by membership (a string equals only a string
  element). A boolean, a number or a plain object has no callable \<^verbatim>\<open>includes\<close>, so
  the call throws a TypeError.
\<close>

fun opt_includes :: "js_value \<Rightarrow> string \<Rightarrow> js_value + js_value" where
  "opt_includes Undefined p = Inr Undefined"
| "opt_includes Null p = Inr Undefined"
| "opt_includes (Str s) p = Inr (Bool (str_includes s p))"
| "opt_includes (Arr xs) p = Inr (Bool (Str p \<in> set xs))"
| "opt_includes v p = Inl (TypeError ''error.message?.includes is not a function'')"

text \<open>
  \<^verbatim>\<open>JSON.stringify\<close>, which \<^verbatim>\<open>NextResponse.json\<close> applies to the body: a property
  whose value is \<^verbatim>\<open>undefined\<close> is left out, an \<^verbatim>\<open>undefined\<close> array element
  becomes \<^verbatim>\<open>null\<close>.
\<close>

fun to_json :: "js_value \<Rightarrow> js_value" where
  "to_json (Arr xs) = Arr (map (\<lambda>x. if x = Undefined then Null else to_json x) xs)"
| "to_json (Obj ps) =
     Obj (map (\<lambda>(k, x). (k, to_json x)) (filter (\<lambda>(k, x). x \<noteq> Undefined) ps))"
| "to_json v = v"

text \<open>
  The object rest pattern \<^verbatim>\<open>const { k: _, ...rest } = obj\<close>: every own property
  but \<^verbatim>\<open>k\<close>.
\<close>

definition rest_without :: "string \<Rightarrow> (string \<times> js_value) list \<Rightarrow> (string \<times> js_value) list" where
  "rest_without k ps = filter (\<lambda>(k', x). k' \<noteq> k) ps"

subsection \<open>Numbers and dates as strings\<close>

text \<open>\<^verbatim>\<open>Number.prototype.toString\<close> on an integer: its decimal digits.\<close>

fun nat_to_string :: "nat \<Rightarrow> string" where
  "nat_to_string n =
     (if n < 10 then [''0123456789'' ! n]
      else nat_to_string (n div 10) @ [''0123456789'' ! (n mod 10)])"

declare nat_to_string.simps [simp del]

definition int_to_string :: "int \<Rightarrow> string" where
  "int_to_string i = (if i < 0 then CHR ''-'' # nat_to_string (nat (- i)) else nat_to_string (nat i))"

text \<open>Decimal digits padded with zeros on the left to a width, as the date format needs.\<close>

definition pad :: "nat \<Rightarrow> int \<Rightarrow> string" where
  "pad width i = (let s = nat_to_string (nat i) in replicate (width - length s) CHR ''0'' @ s)"

text \<open>
  The calendar date of a day number counted from 1970-01-01 in the proleptic Gregorian
  calendar, which is what \<^verbatim>\<open>Date\<close> uses: year, month (1 to 12) and day of the month.
\<close>

definition civil_from_days :: "int \<Rightarrow> int \<times> int \<times> int" where
  "civil_from_days days =
     (let z = days + 719468;
          era = z div 146097;
          doe = z mod 146097;
          yoe = (doe - doe div 1460 + doe div 36524 - doe div 146096) div 365;
          doy = doe - (365 * yoe + yoe div 4 - yoe div 100);
          mp = (5 * doy + 2) div 153;
          d = doy - (153 * mp + 2) div 5 + 1;
          m = (if mp < 10 then mp + 3 else mp - 9);
          y = yoe + era * 400 + (if m \<le> 2 then 1 else 0)
      in (y, m, d))"

text \<open>
  \<^verbatim>\<open>new Date(t).toISOString()\<close> for a time value \<^verbatim>\<open>t\<close> in milliseconds since the
  epoch: \<^verbatim>\<open>YYYY-MM-DDTHH:mm:ss.sssZ\<close>, the year with a sign and six digits outside
  0 to 9999. The clock readings the handlers format are valid time values
  (at most 8.64e15 in absolute value), where \<^verbatim>\<open>toISOString\<close> does not throw.
\<close>

definition toISOString :: "int \<Rightarrow> string" where
  "toISOString t =
     (let (y, m, d) = civil_from_days (t div 86400000);
          ms = t mod 86400000;
          year = (if 0 \<le> y \<and> y \<le> 9999 then pad 4 y
                  else (if y < 0 then ''-'' else ''+'') @ pad 6 (abs y))
      in year @ ''-'' @ pad 2 m @ ''-'' @ pad 2 d @ ''T'' @
         pad 2 (ms div 3600000) @ '':'' @ pad 2 (ms div 60000 mod 60) @ '':'' @
         pad 2 (ms div 1000 mod 60) @ ''.'' @ pad 3 (ms mod 1000) @ ''Z'')"

text \<open>
  Strings are lists of bytes, the UTF-8 encoding of the JavaScript string.
  \<^verbatim>\<open>String.prototype.trim\<close> removes white space and line terminators from both ends:
  U+0009 to U+000D, U+0020, U+00A0, U+1680, U+2000 to U+200A, U+2028, U+2029, U+202F,
  U+205F, U+3000 and U+FEFF, here by their encodings.
\<close>

definition white_space :: "string list" where
  "white_space =
     [[CHR 0x09], [CHR 0x0A], [CHR 0x0B], [CHR 0x0C], [CHR 0x0D], [CHR 0x20],
      [CHR 0xC2, CHR 0xA0],
      [CHR 0xE1, CHR 0x9A, CHR 0x80],
      [CHR 0xE2, CHR 0x80, CHR 0x80], [CHR 0xE2, CHR 0x80, CHR 0x81],
      [CHR 0xE2, CHR 0x80, CHR 0x82], [CHR 0xE2, CHR 0x80, CHR 0x83],
      [CHR 0xE2, CHR 0x80, CHR 0x84], [CHR 0xE2, CHR 0x80, CHR 0x85],
      [CHR 0xE2, CHR 0x80, CHR 0x86], [CHR 0xE2, CHR 0x80, CHR 0x87],
      [CHR 0xE2, CHR 0x80, CHR 0x88], [CHR 0xE2, CHR 0x80, CHR 0x89],
      [CHR 0xE2, CHR 0x80, CHR 0x8A],
      [CHR 0xE2, CHR 0x80, CHR 0xA8], [CHR 0xE2, CHR 0x80, CHR 0xA9],
      [CHR 0xE2, CHR 0x80, CHR 0xAF],
      [CHR 0xE2, CHR 0x81, CHR 0x9F],
      [CHR 0xE3, CHR 0x80, CHR 0x80],
      [CHR 0xEF, CHR 0xBB, CHR 0xBF]]"

definition white_prefix :: "string list \<Rightarrow> string \<Rightarrow> nat" where
  "white_prefix ws s = (case find (\<lambda>p. prefix p s) ws of None \<Rightarrow> 0 | Some p \<Rightarrow> length p)"

fun strip :: "string list \<Rightarrow> string \<Rightarrow> string" where
  "strip ws [] = []"
| "strip ws (c # cs) =
     (case white_prefix ws (c # cs) of 0 \<Rightarrow> c # cs | Suc n \<Rightarrow> strip ws (drop n cs))"

definition trim :: "string \<Rightarrow> string" where
  "trim s = rev (strip (map rev white_space) (rev (strip white_space s)))"

subsection \<open>Double-precision arithmetic\<close>

text \<open>
  \<^verbatim>\<open>Math.random()\<close> is a double in the unit interval, and line 81 multiplies and adds
  in double precision. A non-negative double is given here by a pair \<open>(m, k)\<close> that
  stands for \<open>m / 2 ^ k\<close>. An arithmetic operation yields the exact result rounded to
  53 significant bits, ties to the even neighbour. (The handler's operands are an
  integer constant and a value below 1000000 that is a multiple of \<open>2 ^ -1074\<close>, so
  neither overflow nor the coarser grid of the subnormal range comes into play.)
\<close>

fun bit_length :: "nat \<Rightarrow> nat" where
  "bit_length n = (if n = 0 then 0 else Suc (bit_length (n div 2)))"

declare bit_length.simps [simp del]

definition round53 :: "nat \<Rightarrow> nat" where
  "round53 n =
     (if bit_length n \<le> 53 then n
      else let s = bit_length n - 53; q = n div 2 ^ s; r = n mod 2 ^ s
           in (if 2 ^ s < 2 * r \<or> (2 * r = 2 ^ s \<and> odd q) then q + 1 else q) * 2 ^ s)"

type_synonym double = "nat \<times> nat"

definition double_value :: "double \<Rightarrow> real" where
  "double_value d = (case d of (m, k) \<Rightarrow> real m / 2 ^ k)"

definition double_of_nat :: "nat \<Rightarrow> double" where
  "double_of_nat c = (c, 0)"

definition double_times :: "double \<Rightarrow> double \<Rightarrow> double" where
  "double_times a b = (case a of (m, k) \<Rightarrow> case b of (m', k') \<Rightarrow> (round53 (m * m'), k + k'))"

definition double_plus :: "double \<Rightarrow> double \<Rightarrow> double" where
  "double_plus a b =
     (case a of (m, k) \<Rightarrow> case b of (m', k') \<Rightarrow> (round53 (m * 2 ^ k' + m' * 2 ^ k), k + k'))"

definition Math_floor :: "double \<Rightarrow> nat" where
  "Math_floor d = (case d of (m, k) \<Rightarrow> m div 2 ^ k)"

text \<open>
  The doubles \<^verbatim>\<open>Math.random()\<close> can return: at least 0 and less than 1. Every such
  double is \<open>m / 2 ^ k\<close> for some \<open>k\<close> from 53 to 1074 and some \<open>m\<close> below
  \<open>2 ^ k\<close> with at most 53 significant bits (rounding leaves it unchanged).
\<close>

definition unit_double :: "double \<Rightarrow> bool" where
  "unit_double d = (case d of (m, k) \<Rightarrow> 53 \<le> k \<and> k \<le> 1074 \<and> m < 2 ^ k \<and> round53 m = m)"

definition random_code :: "double \<Rightarrow> nat" where
  \<comment> \<open>\<^verbatim>\<open>Math.floor(100000 + r * 900000)\<close>\<close>
  "random_code r =
     Math_floor (double_plus (double_of_nat 100000) (double_times r (double_of_nat 900000)))"

section \<open>Collaborators and effects\<close>

text \<open>
  Everything the handlers import is outside the repository's two source files: the
  environment, the request, the Zod schema, the database clients, bcrypt, the mailer,
  the clock and the random source. Their behaviour is a parameter of the model, the
  record \<open>world\<close>: for each call, what it resolves with (\<open>Inr\<close>) or throws
  (\<open>Inl\<close>, any JavaScript value). Results are typed as the handlers use them: a user row
  is an object, \<^verbatim>\<open>findByEmail\<close> resolves with a row or \<^verbatim>\<open>null\<close>, the Supabase update
  with the \<^verbatim>\<open>error\<close> member of its result, \<^verbatim>\<open>sendEmail\<close> with the \<^verbatim>\<open>success\<close> member
  of its result.
\<close>

record validated =
  email :: string
  password :: string
  firstName :: string
  lastName :: "string option"
  phone :: "string option"
  role :: string
  schoolId :: "string option"
  businessRegNumber :: "string option"
  address :: "string option"
  profileImageUrl :: "string option"
  termsAccepted :: bool

type_synonym js_object = "(string \<times> js_value) list"

record world =
  SUPABASE_URL :: "string option"
  SUPABASE_ANON_KEY :: "string option"
  DATABASE_URL :: "string option"
  NODE_ENV :: "string option"
  request_json :: "js_value + js_value"
  registerUserSchema_parse :: "js_value \<Rightarrow> js_value + validated"
  users_findByEmail :: "string \<Rightarrow> js_value + js_object option"
  bcrypt_hash :: "string \<Rightarrow> nat \<Rightarrow> js_value + string"
  users_create :: "js_value \<Rightarrow> js_value + js_object"
  new_Date :: int
  Math_random :: double
  Date_now :: int
  supabase_update :: "js_value \<Rightarrow> js_value \<Rightarrow> js_value + js_value"
  generateVerificationEmail :: "string \<Rightarrow> string \<Rightarrow> js_value + string"
  sendEmail :: "js_value \<Rightarrow> js_value + bool"
  getDb :: "js_value + unit"
  select_limit_1 :: "js_value + unit"
  select_where_email :: "string \<Rightarrow> js_value + js_object list"
  insert_returning :: "js_value \<Rightarrow> js_value + js_object list"

text \<open>
  What a run does, in order: every console line (without its leading emoji and without
  its data arguments) and every call of a collaborator with its arguments.
\<close>

datatype level = Log | Warn | Error

datatype event =
    Console level string
  | RequestJson
  | SchemaParse js_value
  | FindByEmail string
  | BcryptHash string nat
  | UsersCreate js_value
  | SupabaseUpdate js_value js_value
  | GenerateVerificationEmail string string
  | SendEmail js_value
  | GetDb
  | SelectLimit1
  | SelectWhereEmail string
  | InsertReturning js_value

fun is_db_event :: "event \<Rightarrow> bool" where
  "is_db_event (FindByEmail e) = True"
| "is_db_event (UsersCreate p) = True"
| "is_db_event (SupabaseUpdate p i) = True"
| "is_db_event GetDb = True"
| "is_db_event SelectLimit1 = True"
| "is_db_event (SelectWhereEmail e) = True"
| "is_db_event (InsertReturning p) = True"
| "is_db_event ev = False"

text \<open>
  A computation either yields a value or throws, and leaves a trace of events. The
  statements of a block run in sequence with \<open>then_do\<close>: a throw skips the rest.
\<close>

type_synonym 'a comp = "(js_value + 'a) \<times> event list"

definition ret :: "'a \<Rightarrow> 'a comp" where
  "ret x = (Inr x, [])"

definition console :: "level \<Rightarrow> string \<Rightarrow> unit comp" where
  "console l m = (Inr (), [Console l m])"

definition call :: "event \<Rightarrow> js_value + 'a \<Rightarrow> 'a comp" where
  "call ev r = (r, [ev])"

definition attempt :: "js_value + 'a \<Rightarrow> 'a comp" where
  "attempt r = (r, [])"

definition then_do :: "'a comp \<Rightarrow> ('a \<Rightarrow> 'b comp) \<Rightarrow> 'b comp" where
  "then_do m f =
     (case m of
        (Inl e, t) \<Rightarrow> (Inl e, t)
      | (Inr x, t) \<Rightarrow> (case f x of (r, t') \<Rightarrow> (r, t @ t')))"

text \<open>
  A response: \<^verbatim>\<open>NextResponse.json(body, { status })\<close>, the body as serialised. Without
  the second argument the status is 200; both handlers always give one.
\<close>

record response =
  status :: nat
  body :: js_value

definition NextResponse_json :: "js_object \<Rightarrow> nat \<Rightarrow> response" where
  "NextResponse_json b st = \<lparr>status = st, body = to_json (Obj b)\<rparr>"

text \<open>\<^verbatim>\<open>!process.env.X\<close>: the variable is unset or empty.\<close>

definition env_missing :: "string option \<Rightarrow> bool" where
  "env_missing x = (case x of None \<Rightarrow> True | Some s \<Rightarrow> s = [])"

text \<open>\<^verbatim>\<open>x || null\<close>, \<^verbatim>\<open>x || ''\<close> and plain \<^verbatim>\<open>x\<close> for an optional string field.\<close>

definition or_null :: "string option \<Rightarrow> js_value" where
  "or_null x = (case x of None \<Rightarrow> Null | Some s \<Rightarrow> if s = [] then Null else Str s)"

definition or_empty :: "string option \<Rightarrow> string" where
  "or_empty x = (case x of None \<Rightarrow> [] | Some s \<Rightarrow> s)"

definition optional :: "string option \<Rightarrow> js_value" where
  "optional x = (case x of None \<Rightarrow> Undefined | Some s \<Rightarrow> Str s)"

section \<open>The catch block\<close>

text \<open>
  Lines 125 to 175 of \<^verbatim>\<open>src/unnamed/part_000\<close> and, word for word, lines 98 to 148 of
  \<^verbatim>\<open>route.ts\<close>. A throw inside the catch block is not caught again: it leaves the
  handler.
\<close>

definition message_includes :: "js_value \<Rightarrow> string \<Rightarrow> bool comp" where
  \<comment> \<open>\<^verbatim>\<open>error.message?.includes(p)\<close> as a condition\<close>
  "message_includes error p =
     then_do (attempt (get_prop error ''message'')) (\<lambda>m.
     then_do (attempt (opt_includes m p)) (\<lambda>r.
     ret (truthy r)))"

definition js_or :: "bool comp \<Rightarrow> bool comp \<Rightarrow> bool comp" where
  \<comment> \<open>\<^verbatim>\<open>a || b\<close>: the right operand runs only when the left is falsy\<close>
  "js_or a b = then_do a (\<lambda>x. if x then ret True else b)"

definition js_and :: "bool comp \<Rightarrow> bool comp \<Rightarrow> bool comp" where
  \<comment> \<open>\<^verbatim>\<open>a && b\<close>: the right operand runs only when the left is truthy\<close>
  "js_and a b = then_do a (\<lambda>x. if x then b else ret False)"

definition catch_block :: "world \<Rightarrow> js_value \<Rightarrow> response comp" where
  \<comment> \<open>the ZodError branch reads \<^verbatim>\<open>error.issues\<close> twice, for the console and for the
      body; a read has no effect, so the model reads once\<close>
  "catch_block w error =
     then_do (console Error ''Registration error details:'') (\<lambda>_.
     then_do (attempt (get_prop error ''name'')) (\<lambda>name.
     if name = Str ''ZodError'' then
       then_do (attempt (get_prop error ''issues'')) (\<lambda>issues.
       then_do (console Error ''Validation error:'') (\<lambda>_.
       ret (NextResponse_json
              [(''success'', Bool False),
               (''message'', Str ''Invalid input data''),
               (''details'', issues)] 400)))
     else
     then_do (js_or (message_includes error ''connect'')
                    (message_includes error ''ENOTFOUND'')) (\<lambda>connection.
     if connection then
       then_do (console Error ''Database connection error'') (\<lambda>_.
       ret (NextResponse_json
              [(''success'', Bool False),
               (''message'', Str ''Database connection failed. Please check your DATABASE_URL.'')]
              500))
     else
     then_do (js_or (message_includes error ''duplicate key'')
                    (message_includes error ''unique constraint'')) (\<lambda>duplicate.
     if duplicate then
       then_do (console Error ''Duplicate email error'') (\<lambda>_.
       ret (NextResponse_json
              [(''success'', Bool False),
               (''message'', Str ''Email already exists'')] 400))
     else
     then_do (js_and (message_includes error ''relation'')
                     (message_includes error ''does not exist'')) (\<lambda>missing_table.
     if missing_table then
       then_do (console Error
                  ''Database tables not found - SQL schema may not have been run'') (\<lambda>_.
       ret (NextResponse_json
              [(''success'', Bool False),
               (''message'', Str
                  ''Database tables not found. Please run the SQL schema in Supabase first.'')]
              500))
     else
     then_do (attempt (if NODE_ENV w = Some ''development''
                       then get_prop error ''message'' else Inr Undefined)) (\<lambda>m.
     ret (NextResponse_json
            [(''success'', Bool False),
             (''message'', Str ''Internal server error''),
             (''error'', m)] 500)))))))"

text \<open>
  \<^verbatim>\<open>try { ... } catch (error) { ... }\<close> as the body of an async function: the block's
  \<^verbatim>\<open>return\<close> is the handler's result, a throw in the block runs the catch block, and a
  throw in the catch block rejects the handler's promise.
\<close>

datatype outcome = Returned response | Uncaught js_value

definition try_catch :: "response comp \<Rightarrow> (js_value \<Rightarrow> response comp) \<Rightarrow> outcome \<times> event list" where
  "try_catch block handler =
     (case block of
        (Inr r, t) \<Rightarrow> (Returned r, t)
      | (Inl e, t) \<Rightarrow>
          (case handler e of
             (Inr r, t') \<Rightarrow> (Returned r, t @ t')
           | (Inl e', t') \<Rightarrow> (Uncaught e', t @ t')))"

section \<open>The handler of \<^verbatim>\<open>src/unnamed/part_000\<close>\<close>

text \<open>
  The try block is one straight line of statements; it is cut into four definitions, the
  later statements first: lines 80 to 123, lines 53 to 78, lines 37 to 51 and lines 11
  to 35.
\<close>

definition verificationCode :: "world \<Rightarrow> string" where
  \<comment> \<open>line 81: \<^verbatim>\<open>Math.floor(100000 + Math.random() * 900000).toString()\<close>\<close>
  "verificationCode w = nat_to_string (random_code (Math_random w))"

definition expiresAt :: "world \<Rightarrow> int" where
  \<comment> \<open>line 82: \<^verbatim>\<open>new Date(Date.now() + 15 * 60 * 1000)\<close>, as its time value\<close>
  "expiresAt w = Date_now w + 15 * 60 * 1000"

definition verification_update :: "world \<Rightarrow> js_value" where
  \<comment> \<open>lines 87 to 90: the argument of \<^verbatim>\<open>update\<close>\<close>
  "verification_update w =
     Obj [(''verification_code'', Str (verificationCode w)),
          (''verification_code_expires'', Str (toISOString (expiresAt w)))]"

definition userName :: "validated \<Rightarrow> string" where
  \<comment> \<open>line 98\<close>
  "userName validatedData =
     trim (firstName validatedData @ '' '' @ or_empty (lastName validatedData))"

definition verification_email :: "validated \<Rightarrow> string \<Rightarrow> js_value" where
  \<comment> \<open>lines 99 to 103: the argument of \<^verbatim>\<open>sendEmail\<close>\<close>
  "verification_email validatedData html =
     Obj [(''to'', Str (email validatedData)),
          (''subject'', Str ''Verify Your k-H Account''),
          (''html'', Str html)]"

definition created :: "js_object \<Rightarrow> response" where
  \<comment> \<open>lines 114 to 123\<close>
  "created newUser =
     NextResponse_json
       [(''success'', Bool True),
        (''user'', Obj (rest_without ''password_hash'' newUser)),
        (''message'', Str (''Registration successful! Please check your email to '' @
                          ''verify your account before signing in.''))] 201"

definition send_verification :: "world \<Rightarrow> validated \<Rightarrow> js_object \<Rightarrow> response comp" where
  "send_verification w validatedData newUser =
     then_do (call (SupabaseUpdate (verification_update w) (own_property newUser ''id''))
                (supabase_update w (verification_update w) (own_property newUser ''id'')))
       (\<lambda>updateError.
     then_do (if truthy updateError
              then console Warn ''Could not store verification code:'' else ret ()) (\<lambda>_.
     then_do (call (GenerateVerificationEmail (verificationCode w) (userName validatedData))
                (generateVerificationEmail w (verificationCode w) (userName validatedData)))
       (\<lambda>html.
     then_do (call (SendEmail (verification_email validatedData html))
                (sendEmail w (verification_email validatedData html))) (\<lambda>emailResult_success.
     then_do (if \<not> emailResult_success
              then console Warn ''Could not send verification email'' else ret ()) (\<lambda>_.
     then_do (if role validatedData = ''agent''
              then console Log
                ''Agent registered - should be added to verification queue by trigger''
              else ret ()) (\<lambda>_.
     ret (created newUser)))))))"

definition new_user_row :: "world \<Rightarrow> validated \<Rightarrow> string \<Rightarrow> js_value" where
  \<comment> \<open>lines 61 to 76: the argument of \<^verbatim>\<open>db.users.create\<close>\<close>
  "new_user_row w validatedData passwordHash =
     Obj [(''email'', Str (email validatedData)),
          (''password_hash'', Str passwordHash),
          (''first_name'', Str (firstName validatedData)),
          (''last_name'', or_null (lastName validatedData)),
          (''phone'', or_null (phone validatedData)),
          (''role'', Str (role validatedData)),
          (''school_id'', or_null (schoolId validatedData)),
          (''business_reg_number'', or_null (businessRegNumber validatedData)),
          (''address'', or_null (address validatedData)),
          (''profile_image_url'', or_null (profileImageUrl validatedData)),
          (''terms_accepted'', Bool (termsAccepted validatedData)),
          (''terms_accepted_at'', Str (toISOString (new_Date w))),
          (''verified_status'', Bool (if role validatedData = ''agent'' then False else True)),
          (''email_verified'', Bool False)]"

definition saltRounds :: nat where
  "saltRounds = 12"

definition create_user :: "world \<Rightarrow> validated \<Rightarrow> response comp" where
  "create_user w validatedData =
     then_do (console Log ''Hashing password...'') (\<lambda>_.
     then_do (call (BcryptHash (password validatedData) saltRounds)
                (bcrypt_hash w (password validatedData) saltRounds)) (\<lambda>passwordHash.
     then_do (console Log ''Password hashed'') (\<lambda>_.
     then_do (console Log ''Creating user in database...'') (\<lambda>_.
     then_do (call (UsersCreate (new_user_row w validatedData passwordHash))
                (users_create w (new_user_row w validatedData passwordHash))) (\<lambda>newUser.
     then_do (console Log ''User created successfully:'') (\<lambda>_.
     send_verification w validatedData newUser))))))"

definition check_existing :: "world \<Rightarrow> validated \<Rightarrow> response comp" where
  "check_existing w validatedData =
     then_do (console Log ''Using Supabase client for database operations'') (\<lambda>_.
     then_do (console Log ''Checking if user exists...'') (\<lambda>_.
     then_do (call (FindByEmail (email validatedData))
                (users_findByEmail w (email validatedData))) (\<lambda>existingUser.
     if existingUser \<noteq> None then
       then_do (console Log ''User already exists:'') (\<lambda>_.
       ret (NextResponse_json
              [(''success'', Bool False),
               (''message'', Str ''User with this email already exists'')] 400))
     else
     then_do (console Log ''Email is available'') (\<lambda>_.
     create_user w validatedData))))"

definition try_block_supabase :: "world \<Rightarrow> response comp" where
  "try_block_supabase w =
     (if env_missing (SUPABASE_URL w) then
        then_do (console Error ''SUPABASE_URL not set'') (\<lambda>_.
        ret (NextResponse_json
               [(''success'', Bool False),
                (''message'', Str ''Supabase configuration missing'')] 500))
      else if env_missing (SUPABASE_ANON_KEY w) then
        then_do (console Error ''SUPABASE_ANON_KEY not set'') (\<lambda>_.
        ret (NextResponse_json
               [(''success'', Bool False),
                (''message'', Str ''Supabase anon key missing'')] 500))
      else
        then_do (console Log ''Environment variables check passed'') (\<lambda>_.
        then_do (call RequestJson (request_json w)) (\<lambda>body.
        then_do (console Log ''Request body received:'') (\<lambda>_.
        then_do (call (SchemaParse body) (registerUserSchema_parse w body)) (\<lambda>validatedData.
        then_do (console Log ''Input validation passed'') (\<lambda>_.
        check_existing w validatedData))))))"

definition POST_supabase :: "world \<Rightarrow> outcome \<times> event list" where
  "POST_supabase w =
     (case try_catch (try_block_supabase w) (catch_block w) of
        (out, t) \<Rightarrow> (out, Console Log ''Registration API called'' # t))"

section \<open>The handler of \<^verbatim>\<open>src/app/api/auth/register/route.ts\<close>\<close>

text \<open>
  The string a template literal \<^verbatim>\<open>`${v}`\<close> inserts for a value (\<^verbatim>\<open>ToString\<close>): an
  array joins its elements with commas, \<^verbatim>\<open>null\<close> and \<^verbatim>\<open>undefined\<close> elements as
  the empty string; a plain object is \<^verbatim>\<open>[object Object]\<close>.
\<close>

fun join_comma :: "string list \<Rightarrow> string" where
  "join_comma [] = []"
| "join_comma [x] = x"
| "join_comma (x # y # ys) = x @ '','' @ join_comma (y # ys)"

fun js_to_string :: "js_value \<Rightarrow> string" where
  "js_to_string Undefined = ''undefined''"
| "js_to_string Null = ''null''"
| "js_to_string (Bool b) = (if b then ''true'' else ''false'')"
| "js_to_string (Num n) = int_to_string n"
| "js_to_string (Str s) = s"
| "js_to_string (Arr xs) =
     join_comma (map (\<lambda>x. if x = Undefined \<or> x = Null then [] else js_to_string x) xs)"
| "js_to_string (Obj ps) = ''[object Object]''"

definition new_Error :: "string \<Rightarrow> js_value" where
  \<comment> \<open>\<^verbatim>\<open>new Error(m)\<close>, as the catch block reads it: its \<^verbatim>\<open>name\<close> and \<^verbatim>\<open>message\<close>\<close>
  "new_Error m = Obj [(''name'', Str ''Error''), (''message'', Str m)]"

text \<open>
  The array pattern \<^verbatim>\<open>const [x] = rows\<close>: the first row, or \<^verbatim>\<open>undefined\<close> when
  there is none.
\<close>

definition first_row :: "js_object list \<Rightarrow> js_value" where
  "first_row rows = (case rows of [] \<Rightarrow> Undefined | r # _ \<Rightarrow> Obj r)"

definition rest_of :: "string \<Rightarrow> js_value \<Rightarrow> js_value" where
  \<comment> \<open>the object rest pattern on the first row of \<^verbatim>\<open>returning()\<close>, reached only
      when the row is an object\<close>
  "rest_of k v = (case v of Obj ps \<Rightarrow> Obj (rest_without k ps) | _ \<Rightarrow> Obj [])"

definition new_user_values :: "validated \<Rightarrow> string \<Rightarrow> js_value" where
  \<comment> \<open>lines 74 to 84: the argument of \<^verbatim>\<open>values\<close>\<close>
  "new_user_values validatedData passwordHash =
     Obj [(''email'', Str (email validatedData)),
          (''passwordHash'', Str passwordHash),
          (''firstName'', Str (firstName validatedData)),
          (''lastName'', optional (lastName validatedData)),
          (''phone'', optional (phone validatedData)),
          (''role'', Str (role validatedData)),
          (''schoolId'', optional (schoolId validatedData)),
          (''businessRegNumber'', optional (businessRegNumber validatedData)),
          (''verifiedStatus'', Bool (if role validatedData = ''agent'' then False else True))]"

definition insert_user :: "world \<Rightarrow> validated \<Rightarrow> response comp" where
  \<comment> \<open>lines 64 to 96\<close>
  "insert_user w validatedData =
     then_do (call (BcryptHash (password validatedData) saltRounds)
                (bcrypt_hash w (password validatedData) saltRounds)) (\<lambda>passwordHash.
     then_do (console Log ''Password hashed'') (\<lambda>_.
     then_do (call (InsertReturning (new_user_values validatedData passwordHash))
                (insert_returning w (new_user_values validatedData passwordHash))) (\<lambda>rows.
     then_do (attempt (get_prop (first_row rows) ''email'')) (\<lambda>_.
     then_do (console Log ''User created successfully:'') (\<lambda>_.
     ret (NextResponse_json
            [(''success'', Bool True),
             (''user'', rest_of ''passwordHash'' (first_row rows)),
             (''message'', Str ''Registration successful'')] 201))))))"

definition connection_test :: "world \<Rightarrow> unit comp" where
  \<comment> \<open>lines 40 to 47: the inner \<^verbatim>\<open>try\<close> and its \<^verbatim>\<open>catch (dbError)\<close>\<close>
  "connection_test w =
     (case call SelectLimit1 (select_limit_1 w) of
        (Inr u, t) \<Rightarrow> (Inr (), t @ [Console Log ''Database query test successful''])
      | (Inl dbError, t) \<Rightarrow>
          (case then_do (console Error ''Database query test failed:'') (\<lambda>_.
                then_do (attempt (get_prop dbError ''message'')) (\<lambda>m.
                attempt (Inl (new_Error (''Database connection test failed: '' @
                                          js_to_string m)))))
           of (r, t') \<Rightarrow> (r, t @ t')))"

definition check_existing_drizzle :: "world \<Rightarrow> validated \<Rightarrow> response comp" where
  \<comment> \<open>lines 37 to 62\<close>
  "check_existing_drizzle w validatedData =
     then_do (call GetDb (getDb w)) (\<lambda>db.
     then_do (console Log ''Database connection established'') (\<lambda>_.
     then_do (connection_test w) (\<lambda>_.
     then_do (call (SelectWhereEmail (email validatedData))
                (select_where_email w (email validatedData))) (\<lambda>rows.
     if truthy (first_row rows) then
       then_do (console Log ''User already exists:'') (\<lambda>_.
       ret (NextResponse_json
              [(''success'', Bool False),
               (''message'', Str ''User with this email already exists'')] 400))
     else
     then_do (console Log ''Email is available'') (\<lambda>_.
     insert_user w validatedData)))))"

definition try_block_drizzle :: "world \<Rightarrow> response comp" where
  \<comment> \<open>lines 11 to 35\<close>
  "try_block_drizzle w =
     (if env_missing (DATABASE_URL w) then
        then_do (console Error ''DATABASE_URL not set'') (\<lambda>_.
        ret (NextResponse_json
               [(''success'', Bool False),
                (''message'', Str ''Database configuration missing'')] 500))
      else if env_missing (SUPABASE_URL w) then
        then_do (console Error ''SUPABASE_URL not set'') (\<lambda>_.
        ret (NextResponse_json
               [(''success'', Bool False),
                (''message'', Str ''Supabase configuration missing'')] 500))
      else
        then_do (console Log ''Environment variables check passed'') (\<lambda>_.
        then_do (call RequestJson (request_json w)) (\<lambda>body.
        then_do (console Log ''Request body received:'') (\<lambda>_.
        then_do (call (SchemaParse body) (registerUserSchema_parse w body)) (\<lambda>validatedData.
        then_do (console Log ''Input validation passed'') (\<lambda>_.
        check_existing_drizzle w validatedData))))))"

definition POST_drizzle :: "world \<Rightarrow> outcome \<times> event list" where
  "POST_drizzle w =
     (case try_catch (try_block_drizzle w) (catch_block w) of
        (out, t) \<Rightarrow> (out, Console Log ''Registration API called'' # t))"

section \<open>Response shapes and example runs\<close>

text \<open>
  The serialised failure responses all have the members \<^verbatim>\<open>success: false\<close> and
  \<^verbatim>\<open>message\<close>, then at most one more member (\<^verbatim>\<open>details\<close> or \<^verbatim>\<open>error\<close>).
\<close>

definition failure :: "nat \<Rightarrow> string \<Rightarrow> js_object \<Rightarrow> response" where
  "failure st m extra =
     \<lparr>status = st, body = Obj ([(''success'', Bool False), (''message'', Str m)] @ extra)\<rparr>"

text \<open>
  The thrown values the catch block can classify without throwing itself: anything but
  \<^verbatim>\<open>null\<close> and \<^verbatim>\<open>undefined\<close> whose \<^verbatim>\<open>name\<close> is \<^verbatim>\<open>ZodError\<close> or whose
  \<^verbatim>\<open>message\<close> is absent, \<^verbatim>\<open>null\<close>, a string or an array.
\<close>

fun has_includes :: "js_value \<Rightarrow> bool" where
  "has_includes (Bool b) = False"
| "has_includes (Num n) = False"
| "has_includes (Obj ps) = False"
| "has_includes v = True"

definition classifiable :: "js_value \<Rightarrow> bool" where
  "classifiable error =
     (case get_prop error ''name'' of
        Inl e \<Rightarrow> False
      | Inr name \<Rightarrow>
          name = Str ''ZodError'' \<or>
          (case get_prop error ''message'' of Inl e \<Rightarrow> False | Inr m \<Rightarrow> has_includes m))"

text \<open>
  A concrete run, the scenario of the specification: the request
  \<^verbatim>\<open>{email: "a@b.com", password: "Secret123!", firstName: "A", role: "buyer",
  termsAccepted: true}\<close> against a store with no such user, every collaborator answering.
\<close>

definition body_ex :: js_value where
  "body_ex =
     Obj [(''email'', Str ''a@b.com''), (''password'', Str ''Secret123!''),
          (''firstName'', Str ''A''), (''role'', Str ''buyer''),
          (''termsAccepted'', Bool True)]"

definition validated_ex :: validated where
  "validated_ex =
     \<lparr>email = ''a@b.com'', password = ''Secret123!'', firstName = ''A'', lastName = None,
      phone = None, role = ''buyer'', schoolId = None, businessRegNumber = None,
      address = None, profileImageUrl = None, termsAccepted = True\<rparr>"

definition zod_error_ex :: js_value where
  "zod_error_ex =
     Obj [(''name'', Str ''ZodError''),
          (''issues'', Arr [Obj [(''code'', Str ''invalid_type''),
                                (''expected'', Str ''string''),
                                (''received'', Str ''undefined''),
                                (''path'', Arr [Str ''email'']),
                                (''message'', Str ''Required'')]]),
          (''message'', Str ''Required'')]"

definition stored_row :: "js_value \<Rightarrow> js_object" where
  "stored_row row = (case row of Obj ps \<Rightarrow> (''id'', Str ''u-1'') # ps | _ \<Rightarrow> [(''id'', Str ''u-1'')])"

definition hash_ex :: string where
  "hash_ex = ''$2a$12$R9h/cIPz0gi.URNNX3kh2OPST9/PgBkqquzi.Ss7KIUgO2t0jWMUW''"

definition world_ex :: world where
  "world_ex =
     \<lparr>SUPABASE_URL = Some ''https://example.supabase.co'',
      SUPABASE_ANON_KEY = Some ''anon-key'',
      DATABASE_URL = Some ''postgres://localhost/app'',
      NODE_ENV = Some ''production'',
      request_json = Inr body_ex,
      registerUserSchema_parse = (\<lambda>b. if b = body_ex then Inr validated_ex else Inl zod_error_ex),
      users_findByEmail = (\<lambda>e. Inr None),
      bcrypt_hash = (\<lambda>p r. Inr hash_ex),
      users_create = (\<lambda>row. Inr (stored_row row)),
      new_Date = 1700000000000,
      Math_random = (4503599627370496, 53),
      Date_now = 1700000000250,
      supabase_update = (\<lambda>u i. Inr Null),
      generateVerificationEmail = (\<lambda>c n. Inr (''<p>'' @ n @ '': '' @ c @ ''</p>'')),
      sendEmail = (\<lambda>m. Inr True),
      getDb = Inr (),
      select_limit_1 = Inr (),
      select_where_email = (\<lambda>e. Inr []),
      insert_returning = (\<lambda>row. Inr [stored_row row])\<rparr>"

text \<open>
  A run of the \<^verbatim>\<open>part_000\<close> handler in which the configuration is present, the body
  parses and validates to \<open>v\<close>, the lookup finds no user and every later collaborator
  resolves: bcrypt with \<open>h\<close>, the insert with the row \<open>newUser\<close>, the update with
  \<open>updateError\<close> (\<^verbatim>\<open>null\<close> or an error), the template with \<open>html\<close> and the mailer
  with the flag \<open>sent\<close>.
\<close>

definition registration_run ::
  "world \<Rightarrow> js_value \<Rightarrow> validated \<Rightarrow> string \<Rightarrow> js_object \<Rightarrow> js_value \<Rightarrow> string \<Rightarrow> bool \<Rightarrow> bool" where
  "registration_run w b v h newUser updateError html sent =
     (\<not> env_missing (SUPABASE_URL w) \<and>
      \<not> env_missing (SUPABASE_ANON_KEY w) \<and>
      request_json w = Inr b \<and>
      registerUserSchema_parse w b = Inr v \<and>
      users_findByEmail w (email v) = Inr None \<and>
      bcrypt_hash w (password v) saltRounds = Inr h \<and>
      users_create w (new_user_row w v h) = Inr newUser \<and>
      supabase_update w (verification_update w) (own_property newUser ''id'') = Inr updateError \<and>
      generateVerificationEmail w (verificationCode w) (userName v) = Inr html \<and>
      sendEmail w (verification_email v html) = Inr sent)"

text \<open>The same for the \<^verbatim>\<open>route.ts\<close> handler: the insert returns \<open>newUser\<close> first.\<close>

definition drizzle_run ::
  "world \<Rightarrow> js_value \<Rightarrow> validated \<Rightarrow> string \<Rightarrow> js_object \<Rightarrow> js_object list \<Rightarrow> bool" where
  "drizzle_run w b v h newUser others =
     (\<not> env_missing (DATABASE_URL w) \<and>
      \<not> env_missing (SUPABASE_URL w) \<and>
      request_json w = Inr b \<and>
      registerUserSchema_parse w b = Inr v \<and>
      getDb w = Inr () \<and>
      select_limit_1 w = Inr () \<and>
      select_where_email w (email v) = Inr [] \<and>
      bcrypt_hash w (password v) saltRounds = Inr h \<and>
      insert_returning w (new_user_values v h) = Inr (newUser # others))"

definition created_drizzle :: "js_object \<Rightarrow> response" where
  \<comment> \<open>\<^verbatim>\<open>route.ts\<close>, lines 89 to 96\<close>
  "created_drizzle newUser =
     NextResponse_json
       [(''success'', Bool True),
        (''user'', Obj (rest_without ''passwordHash'' newUser)),
        (''message'', Str ''Registration successful'')] 201"

text \<open>The rows a run hands to the store for insertion, and the updates it asks for.\<close>

fun inserted_rows :: "event list \<Rightarrow> js_value list" where
  "inserted_rows [] = []"
| "inserted_rows (UsersCreate row # t) = row # inserted_rows t"
| "inserted_rows (InsertReturning row # t) = row # inserted_rows t"
| "inserted_rows (ev # t) = inserted_rows t"

fun requested_updates :: "event list \<Rightarrow> (js_value \<times> js_value) list" where
  "requested_updates [] = []"
| "requested_updates (SupabaseUpdate u i # t) = (u, i) # requested_updates t"
| "requested_updates (ev # t) = requested_updates t"

text \<open>
  Two variations of the example: a store that already has a user with the address, and
  collaborators that report failure after the insert (the update returns an error, the
  mailer returns \<^verbatim>\<open>success: false\<close>).
\<close>

definition world_taken_ex :: world where
  "world_taken_ex =
     world_ex\<lparr>users_findByEmail := (\<lambda>e. Inr (Some [(''id'', Str ''u-0''), (''email'', Str e)])),
              select_where_email := (\<lambda>e. Inr [[(''id'', Str ''u-0''), (''email'', Str e)]])\<rparr>"

definition world_degraded_ex :: world where
  "world_degraded_ex =
     world_ex\<lparr>supabase_update := (\<lambda>u i. Inr (Obj [(''message'', Str ''permission denied'')])),
              sendEmail := (\<lambda>m. Inr False)\<rparr>"

text \<open>
  A run in which the insert succeeds and the mailer then throws instead of reporting.
\<close>

definition world_mail_throws_ex :: world where
  "world_mail_throws_ex = world_ex\<lparr>sendEmail := (\<lambda>m. Inl (new_Error ''SMTP timeout''))\<rparr>"

text \<open>A third variation: the schema yields the role \<^verbatim>\<open>agent\<close>.\<close>

definition world_agent_ex :: world where
  "world_agent_ex =
     world_ex\<lparr>registerUserSchema_parse := (\<lambda>b. Inr (validated_ex\<lparr>role := ''agent''\<rparr>))\<rparr>"

section \<open>Running the blocks\<close>

lemma then_do_Inr: "then_do (Inr x, t) f = (fst (f x), t @ snd (f x))"
  by (simp add: then_do_def split: prod.split)

lemma then_do_Inl: "then_do (Inl e, t) f = (Inl e, t)"
  by (simp add: then_do_def)

lemmas comp_simps = then_do_Inr then_do_Inl ret_def console_def call_def attempt_def

lemma POST_supabase_returns:
  assumes "try_block_supabase w = (Inr r, t)"
  shows "POST_supabase w = (Returned r, Console Log ''Registration API called'' # t)"
  using assms by (simp add: POST_supabase_def try_catch_def)

lemma POST_drizzle_returns:
  assumes "try_block_drizzle w = (Inr r, t)"
  shows "POST_drizzle w = (Returned r, Console Log ''Registration API called'' # t)"
  using assms by (simp add: POST_drizzle_def try_catch_def)

lemma failure_json:
  "NextResponse_json [(''success'', Bool False), (''message'', Str m)] st = failure st m []"
  by (simp add: NextResponse_json_def failure_def)

subsection \<open>Missing configuration\<close>

lemma try_block_supabase_unconfigured:
  assumes "env_missing (SUPABASE_URL w) \<or> env_missing (SUPABASE_ANON_KEY w)"
  shows "try_block_supabase w =
    (Inr (failure 500 (if env_missing (SUPABASE_URL w) then ''Supabase configuration missing''
                       else ''Supabase anon key missing'') []),
     [Console Error (if env_missing (SUPABASE_URL w) then ''SUPABASE_URL not set''
                     else ''SUPABASE_ANON_KEY not set'')])"
  using assms by (auto simp add: try_block_supabase_def comp_simps failure_json)

lemma try_block_drizzle_unconfigured:
  assumes "env_missing (DATABASE_URL w) \<or> env_missing (SUPABASE_URL w)"
  shows "try_block_drizzle w =
    (Inr (failure 500 (if env_missing (DATABASE_URL w) then ''Database configuration missing''
                       else ''Supabase configuration missing'') []),
     [Console Error (if env_missing (DATABASE_URL w) then ''DATABASE_URL not set''
                     else ''SUPABASE_URL not set'')])"
  using assms by (auto simp add: try_block_drizzle_def comp_simps failure_json)

text \<open>
  C8. When a required connection setting is unset (or empty), the handler answers 500
  with a configuration-missing message, and the run consists of two console lines only:
  the request body is not read, the schema is not applied and no database call is made.
  In \<^verbatim>\<open>part_000\<close> the settings are \<^verbatim>\<open>SUPABASE_URL\<close> and \<^verbatim>\<open>SUPABASE_ANON_KEY\<close>, in
  \<^verbatim>\<open>route.ts\<close> they are \<^verbatim>\<open>DATABASE_URL\<close> and \<^verbatim>\<open>SUPABASE_URL\<close>.
\<close>

theorem configuration_missing_fails_fast:
  "(env_missing (SUPABASE_URL w) \<or> env_missing (SUPABASE_ANON_KEY w) \<longrightarrow>
      POST_supabase w =
        (Returned (failure 500 (if env_missing (SUPABASE_URL w)
                                then ''Supabase configuration missing''
                                else ''Supabase anon key missing'') []),
         [Console Log ''Registration API called'',
          Console Error (if env_missing (SUPABASE_URL w) then ''SUPABASE_URL not set''
                         else ''SUPABASE_ANON_KEY not set'')])) \<and>
   (env_missing (DATABASE_URL w) \<or> env_missing (SUPABASE_URL w) \<longrightarrow>
      POST_drizzle w =
        (Returned (failure 500 (if env_missing (DATABASE_URL w)
                                then ''Database configuration missing''
                                else ''Supabase configuration missing'') []),
         [Console Log ''Registration API called'',
          Console Error (if env_missing (DATABASE_URL w) then ''DATABASE_URL not set''
                         else ''SUPABASE_URL not set'')]))"
proof (intro conjI impI)
  assume "env_missing (SUPABASE_URL w) \<or> env_missing (SUPABASE_ANON_KEY w)"
  then show "POST_supabase w =
        (Returned (failure 500 (if env_missing (SUPABASE_URL w)
                                then ''Supabase configuration missing''
                                else ''Supabase anon key missing'') []),
         [Console Log ''Registration API called'',
          Console Error (if env_missing (SUPABASE_URL w) then ''SUPABASE_URL not set''
                         else ''SUPABASE_ANON_KEY not set'')])"
    by (rule POST_supabase_returns [OF try_block_supabase_unconfigured])
next
  assume "env_missing (DATABASE_URL w) \<or> env_missing (SUPABASE_URL w)"
  then show "POST_drizzle w =
        (Returned (failure 500 (if env_missing (DATABASE_URL w)
                                then ''Database configuration missing''
                                else ''Supabase configuration missing'') []),
         [Console Log ''Registration API called'',
          Console Error (if env_missing (DATABASE_URL w) then ''DATABASE_URL not set''
                         else ''SUPABASE_URL not set'')])"
    by (rule POST_drizzle_returns [OF try_block_drizzle_unconfigured])
qed

theorem configuration_missing_fails_fast_witness:
  "env_missing (SUPABASE_URL (world_ex\<lparr>SUPABASE_URL := None\<rparr>)) \<and>
   POST_supabase (world_ex\<lparr>SUPABASE_URL := None\<rparr>) =
     (Returned (failure 500 ''Supabase configuration missing'' []),
      [Console Log ''Registration API called'', Console Error ''SUPABASE_URL not set'']) \<and>
   POST_drizzle (world_ex\<lparr>SUPABASE_URL := None\<rparr>) =
     (Returned (failure 500 ''Supabase configuration missing'' []),
      [Console Log ''Registration API called'', Console Error ''SUPABASE_URL not set''])"
  using configuration_missing_fails_fast [of "world_ex\<lparr>SUPABASE_URL := None\<rparr>"]
  by (simp add: world_ex_def env_missing_def)

subsection \<open>The catch block, branch by branch\<close>

lemma POST_supabase_throws:
  assumes "fst (try_block_supabase w) = Inl e"
  shows "fst (POST_supabase w) =
    (case fst (catch_block w e) of Inr r \<Rightarrow> Returned r | Inl e' \<Rightarrow> Uncaught e')"
  using assms
  by (cases "try_block_supabase w"; cases "catch_block w e")
     (simp add: POST_supabase_def try_catch_def split: sum.split)

lemma POST_drizzle_throws:
  assumes "fst (try_block_drizzle w) = Inl e"
  shows "fst (POST_drizzle w) =
    (case fst (catch_block w e) of Inr r \<Rightarrow> Returned r | Inl e' \<Rightarrow> Uncaught e')"
  using assms
  by (cases "try_block_drizzle w"; cases "catch_block w e")
     (simp add: POST_drizzle_def try_catch_def split: sum.split)

lemma str_includes_sublist: "str_includes s p \<longleftrightarrow> sublist p s"
  by (induction s) (auto simp add: sublist_Cons_right)

lemma message_includes_Str:
  "get_prop error ''message'' = Inr (Str m) \<Longrightarrow>
   message_includes error p = (Inr (str_includes m p), [])"
  by (simp add: message_includes_def comp_simps)

lemma message_includes_pure:
  assumes "get_prop error ''message'' = Inr m" and "has_includes m"
  shows "\<exists>b. message_includes error p = (Inr b, [])"
  using assms by (cases m) (auto simp add: message_includes_def comp_simps)

lemma js_or_pure: "js_or (Inr a, []) (Inr b, []) = (Inr (a \<or> b), [])"
  by (simp add: js_or_def comp_simps)

lemma js_and_pure: "js_and (Inr a, []) (Inr b, []) = (Inr (a \<and> b), [])"
  by (simp add: js_and_def comp_simps)

lemma catch_block_ZodError:
  assumes "get_prop error ''name'' = Inr (Str ''ZodError'')"
    and "get_prop error ''issues'' = Inr issues"
  shows "catch_block w error =
    (Inr (failure 400 ''Invalid input data''
            (if issues = Undefined then [] else [(''details'', to_json issues)])),
     [Console Error ''Registration error details:'', Console Error ''Validation error:''])"
  using assms by (simp add: catch_block_def comp_simps NextResponse_json_def failure_def)

lemma catch_block_cascade:
  assumes "get_prop error ''name'' = Inr name" and "name \<noteq> Str ''ZodError''"
    and "message_includes error ''connect'' = (Inr c1, [])"
    and "message_includes error ''ENOTFOUND'' = (Inr c2, [])"
    and "message_includes error ''duplicate key'' = (Inr d1, [])"
    and "message_includes error ''unique constraint'' = (Inr d2, [])"
    and "message_includes error ''relation'' = (Inr r1, [])"
    and "message_includes error ''does not exist'' = (Inr r2, [])"
    and "get_prop error ''message'' = Inr m"
  shows "catch_block w error =
    (if c1 \<or> c2 then
       (Inr (failure 500 ''Database connection failed. Please check your DATABASE_URL.'' []),
        [Console Error ''Registration error details:'',
         Console Error ''Database connection error''])
     else if d1 \<or> d2 then
       (Inr (failure 400 ''Email already exists'' []),
        [Console Error ''Registration error details:'', Console Error ''Duplicate email error''])
     else if r1 \<and> r2 then
       (Inr (failure 500
               ''Database tables not found. Please run the SQL schema in Supabase first.'' []),
        [Console Error ''Registration error details:'',
         Console Error ''Database tables not found - SQL schema may not have been run''])
     else
       (Inr (failure 500 ''Internal server error''
               (if NODE_ENV w = Some ''development'' \<and> m \<noteq> Undefined
                then [(''error'', to_json m)] else [])),
        [Console Error ''Registration error details:'']))"
  using assms
  by (simp add: catch_block_def js_or_pure js_and_pure comp_simps failure_json)
     (simp add: NextResponse_json_def failure_def)

lemma catch_block_Error_object:
  assumes "own_property ps ''message'' = Str m"
    and "own_property ps ''name'' \<noteq> Str ''ZodError''"
  shows "catch_block w (Obj ps) =
    (if str_includes m ''connect'' \<or> str_includes m ''ENOTFOUND'' then
       (Inr (failure 500 ''Database connection failed. Please check your DATABASE_URL.'' []),
        [Console Error ''Registration error details:'',
         Console Error ''Database connection error''])
     else if str_includes m ''duplicate key'' \<or> str_includes m ''unique constraint'' then
       (Inr (failure 400 ''Email already exists'' []),
        [Console Error ''Registration error details:'', Console Error ''Duplicate email error''])
     else if str_includes m ''relation'' \<and> str_includes m ''does not exist'' then
       (Inr (failure 500
               ''Database tables not found. Please run the SQL schema in Supabase first.'' []),
        [Console Error ''Registration error details:'',
         Console Error ''Database tables not found - SQL schema may not have been run''])
     else
       (Inr (failure 500 ''Internal server error''
               (if NODE_ENV w = Some ''development'' then [(''error'', Str m)] else [])),
        [Console Error ''Registration error details:'']))"
proof -
  have m: "get_prop (Obj ps) ''message'' = Inr (Str m)"
    using assms(1) by simp
  have name: "get_prop (Obj ps) ''name'' = Inr (own_property ps ''name'')"
    by simp
  show ?thesis
    using catch_block_cascade [OF name assms(2) message_includes_Str [OF m]
        message_includes_Str [OF m] message_includes_Str [OF m] message_includes_Str [OF m]
        message_includes_Str [OF m] message_includes_Str [OF m] m, of w]
    by simp
qed

lemma get_prop_total: "\<not> nullish v \<Longrightarrow> \<exists>x. get_prop v k = Inr x"
  by (cases v) simp_all

lemma failure_success: "get_prop (body (failure st m extra)) ''success'' = Inr (Bool False)"
  by (simp add: failure_def own_property_def)

lemma catch_block_classifiable:
  assumes "classifiable error"
  shows "\<exists>st m extra t. catch_block w error = (Inr (failure st m extra), t)"
proof -
  from assms obtain name where name: "get_prop error ''name'' = Inr name"
    by (auto simp add: classifiable_def split: sum.splits)
  then have nn: "\<not> nullish error" by (cases error) simp_all
  show ?thesis
  proof (cases "name = Str ''ZodError''")
    case True
    from get_prop_total [OF nn] obtain issues where "get_prop error ''issues'' = Inr issues"
      by blast
    with name True show ?thesis
      using catch_block_ZodError [of error issues w] by blast
  next
    case False
    with assms name obtain m where m: "get_prop error ''message'' = Inr m" "has_includes m"
      by (auto simp add: classifiable_def split: sum.splits)
    obtain c1 c2 d1 d2 r1 r2 where
      "message_includes error ''connect'' = (Inr c1, [])"
      "message_includes error ''ENOTFOUND'' = (Inr c2, [])"
      "message_includes error ''duplicate key'' = (Inr d1, [])"
      "message_includes error ''unique constraint'' = (Inr d2, [])"
      "message_includes error ''relation'' = (Inr r1, [])"
      "message_includes error ''does not exist'' = (Inr r2, [])"
      using message_includes_pure [OF m] by metis
    from catch_block_cascade [OF name False this m(1), of w] show ?thesis
      by (simp split: if_splits) blast+
  qed
qed

text \<open>
  C7. The catch block classifies an error object whose \<^verbatim>\<open>message\<close> is a string by the
  first of these that applies: the name \<^verbatim>\<open>ZodError\<close> gives 400 with the issues as
  \<^verbatim>\<open>details\<close>; a message containing \<^verbatim>\<open>connect\<close> or \<^verbatim>\<open>ENOTFOUND\<close> gives 500
  "Database connection failed"; one containing \<^verbatim>\<open>duplicate key\<close> or
  \<^verbatim>\<open>unique constraint\<close> gives 400 "Email already exists"; one containing both
  \<^verbatim>\<open>relation\<close> and \<^verbatim>\<open>does not exist\<close> gives 500; anything else gives the generic 500,
  whose \<^verbatim>\<open>error\<close> member carries the message exactly when \<^verbatim>\<open>NODE_ENV\<close> is
  \<^verbatim>\<open>development\<close> and is absent otherwise.
\<close>

theorem catch_block_classification:
  assumes "own_property ps ''message'' = Str m"
  shows "fst (catch_block w (Obj ps)) = Inr
    (if own_property ps ''name'' = Str ''ZodError'' then
       failure 400 ''Invalid input data''
         (if own_property ps ''issues'' = Undefined then []
          else [(''details'', to_json (own_property ps ''issues''))])
     else if str_includes m ''connect'' \<or> str_includes m ''ENOTFOUND'' then
       failure 500 ''Database connection failed. Please check your DATABASE_URL.'' []
     else if str_includes m ''duplicate key'' \<or> str_includes m ''unique constraint'' then
       failure 400 ''Email already exists'' []
     else if str_includes m ''relation'' \<and> str_includes m ''does not exist'' then
       failure 500 ''Database tables not found. Please run the SQL schema in Supabase first.'' []
     else
       failure 500 ''Internal server error''
         (if NODE_ENV w = Some ''development'' then [(''error'', Str m)] else []))"
proof (cases "own_property ps ''name'' = Str ''ZodError''")
  case True
  then show ?thesis
    using catch_block_ZodError [of "Obj ps" "own_property ps ''issues''" w] by simp
next
  case False
  then show ?thesis
    using catch_block_Error_object [OF assms False, of w] by simp
qed

theorem catch_block_classification_witness:
  "own_property [(''name'', Str ''Error''),
                 (''message'', Str ''duplicate key value violates unique constraint'')]
     ''message'' = Str ''duplicate key value violates unique constraint'' \<and>
   fst (catch_block world_ex
          (Obj [(''name'', Str ''Error''),
                (''message'', Str ''duplicate key value violates unique constraint'')])) =
     Inr (failure 400 ''Email already exists'' [])"
  using catch_block_classification
    [of "[(''name'', Str ''Error''),
          (''message'', Str ''duplicate key value violates unique constraint'')]"
        "''duplicate key value violates unique constraint''" world_ex]
  by (simp add: own_property_def)

text \<open>
  C10. The cascade is first match in source order. A thrown error object that is not a
  ZodError and whose message contains a connectivity pattern (\<^verbatim>\<open>connect\<close> or
  \<^verbatim>\<open>ENOTFOUND\<close>) as well as a uniqueness pattern (\<^verbatim>\<open>duplicate key\<close> or
  \<^verbatim>\<open>unique constraint\<close>) makes either handler return the 500 connection-failed
  response, not the 400 one.
\<close>

theorem connectivity_precedes_uniqueness:
  assumes "own_property ps ''message'' = Str m"
    and "own_property ps ''name'' \<noteq> Str ''ZodError''"
    and "str_includes m ''connect'' \<or> str_includes m ''ENOTFOUND''"
    and "str_includes m ''duplicate key'' \<or> str_includes m ''unique constraint''"
  shows "(fst (try_block_supabase w) = Inl (Obj ps) \<longrightarrow>
            fst (POST_supabase w) = Returned
              (failure 500 ''Database connection failed. Please check your DATABASE_URL.'' [])) \<and>
         (fst (try_block_drizzle w) = Inl (Obj ps) \<longrightarrow>
            fst (POST_drizzle w) = Returned
              (failure 500 ''Database connection failed. Please check your DATABASE_URL.'' []))"
  using assms(3) catch_block_Error_object [OF assms(1,2), of w]
  by (auto simp add: POST_supabase_throws POST_drizzle_throws)

theorem connectivity_precedes_uniqueness_witness:
  "own_property [(''name'', Str ''Error''),
                 (''message'', Str ''connect ETIMEDOUT after duplicate key retry'')] ''message'' =
     Str ''connect ETIMEDOUT after duplicate key retry'' \<and>
   own_property [(''name'', Str ''Error''),
                 (''message'', Str ''connect ETIMEDOUT after duplicate key retry'')] ''name'' \<noteq>
     Str ''ZodError'' \<and>
   str_includes ''connect ETIMEDOUT after duplicate key retry'' ''connect'' \<and>
   str_includes ''connect ETIMEDOUT after duplicate key retry'' ''duplicate key'' \<and>
   fst (try_block_supabase
          (world_ex\<lparr>request_json :=
             Inl (new_Error ''connect ETIMEDOUT after duplicate key retry'')\<rparr>)) =
     Inl (Obj [(''name'', Str ''Error''),
               (''message'', Str ''connect ETIMEDOUT after duplicate key retry'')]) \<and>
   fst (POST_supabase
          (world_ex\<lparr>request_json :=
             Inl (new_Error ''connect ETIMEDOUT after duplicate key retry'')\<rparr>)) =
     Returned (failure 500 ''Database connection failed. Please check your DATABASE_URL.'' []) \<and>
   fst (try_block_drizzle
          (world_ex\<lparr>request_json :=
             Inl (new_Error ''connect ETIMEDOUT after duplicate key retry'')\<rparr>)) =
     Inl (Obj [(''name'', Str ''Error''),
               (''message'', Str ''connect ETIMEDOUT after duplicate key retry'')]) \<and>
   fst (POST_drizzle
          (world_ex\<lparr>request_json :=
             Inl (new_Error ''connect ETIMEDOUT after duplicate key retry'')\<rparr>)) =
     Returned (failure 500 ''Database connection failed. Please check your DATABASE_URL.'' [])"
  using connectivity_precedes_uniqueness
    [of "[(''name'', Str ''Error''),
          (''message'', Str ''connect ETIMEDOUT after duplicate key retry'')]"
        "''connect ETIMEDOUT after duplicate key retry''"
        "world_ex\<lparr>request_json :=
             Inl (new_Error ''connect ETIMEDOUT after duplicate key retry'')\<rparr>"]
  by (simp add: own_property_def world_ex_def try_block_supabase_def try_block_drizzle_def
      env_missing_def comp_simps new_Error_def)

text \<open>
  C9, as the code has it. The catch block reads \<^verbatim>\<open>error.name\<close> with no guard, so a
  thrown \<^verbatim>\<open>null\<close> makes the catch block itself throw, and that TypeError leaves the
  handler: here \<^verbatim>\<open>request.json()\<close> rejects with \<^verbatim>\<open>null\<close>.
\<close>

theorem thrown_null_escapes:
  "fst (POST_supabase (world_ex\<lparr>request_json := Inl Null\<rparr>)) =
     Uncaught (TypeError (''Cannot read properties of null (reading '' @ quoted ''name'' @ '')''))"
  by (simp add: POST_supabase_def try_catch_def try_block_supabase_def catch_block_def
      world_ex_def env_missing_def comp_simps)

text \<open>
  C9, amended. Every thrown value that is classifiable (not \<^verbatim>\<open>null\<close> or
  \<^verbatim>\<open>undefined\<close>, and either named \<^verbatim>\<open>ZodError\<close> or with a \<^verbatim>\<open>message\<close> that is
  absent, \<^verbatim>\<open>null\<close>, a string or an array) is caught at the handler's boundary: the
  handler returns one response, whose body has \<^verbatim>\<open>success: false\<close>. A thrown string is
  such a value.
\<close>

theorem classifiable_throw_is_caught:
  assumes "classifiable error"
  shows "(fst (try_block_supabase w) = Inl error \<longrightarrow>
            (\<exists>r. fst (POST_supabase w) = Returned r \<and>
                 get_prop (body r) ''success'' = Inr (Bool False))) \<and>
         (fst (try_block_drizzle w) = Inl error \<longrightarrow>
            (\<exists>r. fst (POST_drizzle w) = Returned r \<and>
                 get_prop (body r) ''success'' = Inr (Bool False)))"
proof -
  from catch_block_classifiable [OF assms, of w] obtain st m extra t
    where "catch_block w error = (Inr (failure st m extra), t)" by blast
  then have "fst (catch_block w error) = Inr (failure st m extra)" by simp
  then show ?thesis
    by (simp add: POST_supabase_throws POST_drizzle_throws failure_success)
qed

theorem classifiable_throw_is_caught_witness:
  "classifiable (Str ''boom'') \<and>
   fst (try_block_supabase (world_ex\<lparr>request_json := Inl (Str ''boom'')\<rparr>)) =
     Inl (Str ''boom'') \<and>
   (\<exists>r. fst (POST_supabase (world_ex\<lparr>request_json := Inl (Str ''boom'')\<rparr>)) = Returned r \<and>
        get_prop (body r) ''success'' = Inr (Bool False)) \<and>
   fst (try_block_drizzle (world_ex\<lparr>request_json := Inl (Str ''boom'')\<rparr>)) =
     Inl (Str ''boom'') \<and>
   (\<exists>r. fst (POST_drizzle (world_ex\<lparr>request_json := Inl (Str ''boom'')\<rparr>)) = Returned r \<and>
        get_prop (body r) ''success'' = Inr (Bool False))"
proof -
  have c: "classifiable (Str ''boom'')"
    by (simp add: classifiable_def)
  have s: "fst (try_block_supabase (world_ex\<lparr>request_json := Inl (Str ''boom'')\<rparr>)) =
      Inl (Str ''boom'')"
    by (simp add: world_ex_def try_block_supabase_def env_missing_def comp_simps)
  have d: "fst (try_block_drizzle (world_ex\<lparr>request_json := Inl (Str ''boom'')\<rparr>)) =
      Inl (Str ''boom'')"
    by (simp add: world_ex_def try_block_drizzle_def env_missing_def comp_simps)
  from classifiable_throw_is_caught [OF c, of "world_ex\<lparr>request_json := Inl (Str ''boom'')\<rparr>"]
    c s d
  show ?thesis by blast
qed

subsection \<open>The try block of \<^verbatim>\<open>part_000\<close>, statement by statement\<close>

lemma then_do_Inr_iff:
  "fst (then_do m f) = Inr r \<longleftrightarrow> (\<exists>x. fst m = Inr x \<and> fst (f x) = Inr r)"
  by (cases m; cases "fst m") (auto simp add: then_do_def split: prod.split)

lemma send_verification_resolved:
  assumes "supabase_update w (verification_update w) (own_property newUser ''id'') = Inr updateError"
    and "generateVerificationEmail w (verificationCode w) (userName v) = Inr html"
    and "sendEmail w (verification_email v html) = Inr sent"
  shows "send_verification w v newUser =
    (Inr (created newUser),
     [SupabaseUpdate (verification_update w) (own_property newUser ''id'')] @
     (if truthy updateError then [Console Warn ''Could not store verification code:''] else []) @
     [GenerateVerificationEmail (verificationCode w) (userName v),
      SendEmail (verification_email v html)] @
     (if sent then [] else [Console Warn ''Could not send verification email'']) @
     (if role v = ''agent''
      then [Console Log ''Agent registered - should be added to verification queue by trigger'']
      else []))"
  using assms by (simp add: send_verification_def comp_simps)

lemma create_user_resolved:
  assumes "bcrypt_hash w (password v) saltRounds = Inr h"
    and "users_create w (new_user_row w v h) = Inr newUser"
  shows "create_user w v =
    (fst (send_verification w v newUser),
     [Console Log ''Hashing password...'',
      BcryptHash (password v) saltRounds,
      Console Log ''Password hashed'',
      Console Log ''Creating user in database...'',
      UsersCreate (new_user_row w v h),
      Console Log ''User created successfully:''] @ snd (send_verification w v newUser))"
  using assms by (simp add: create_user_def comp_simps)

lemma check_existing_fresh:
  assumes "users_findByEmail w (email v) = Inr None"
  shows "check_existing w v =
    (fst (create_user w v),
     [Console Log ''Using Supabase client for database operations'',
      Console Log ''Checking if user exists...'',
      FindByEmail (email v),
      Console Log ''Email is available''] @ snd (create_user w v))"
  using assms by (simp add: check_existing_def comp_simps)

lemma check_existing_found:
  assumes "users_findByEmail w (email v) = Inr (Some u)"
  shows "check_existing w v =
    (Inr (failure 400 ''User with this email already exists'' []),
     [Console Log ''Using Supabase client for database operations'',
      Console Log ''Checking if user exists...'',
      FindByEmail (email v),
      Console Log ''User already exists:''])"
  using assms by (simp add: check_existing_def comp_simps failure_json)

lemma try_block_supabase_validated:
  assumes "\<not> env_missing (SUPABASE_URL w)" and "\<not> env_missing (SUPABASE_ANON_KEY w)"
    and "request_json w = Inr b"
    and "registerUserSchema_parse w b = Inr v"
  shows "try_block_supabase w =
    (fst (check_existing w v),
     [Console Log ''Environment variables check passed'',
      RequestJson,
      Console Log ''Request body received:'',
      SchemaParse b,
      Console Log ''Input validation passed''] @ snd (check_existing w v))"
  using assms by (simp add: try_block_supabase_def comp_simps)

lemma try_block_supabase_invalid:
  assumes "\<not> env_missing (SUPABASE_URL w)" and "\<not> env_missing (SUPABASE_ANON_KEY w)"
    and "request_json w = Inr b"
    and "registerUserSchema_parse w b = Inl e"
  shows "try_block_supabase w =
    (Inl e,
     [Console Log ''Environment variables check passed'',
      RequestJson,
      Console Log ''Request body received:'',
      SchemaParse b])"
  using assms by (simp add: try_block_supabase_def comp_simps)

lemma try_block_supabase_registers:
  assumes "registration_run w b v h newUser updateError html sent"
  shows "try_block_supabase w =
    (Inr (created newUser),
     [Console Log ''Environment variables check passed'',
      RequestJson,
      Console Log ''Request body received:'',
      SchemaParse b,
      Console Log ''Input validation passed'',
      Console Log ''Using Supabase client for database operations'',
      Console Log ''Checking if user exists...'',
      FindByEmail (email v),
      Console Log ''Email is available'',
      Console Log ''Hashing password...'',
      BcryptHash (password v) 12,
      Console Log ''Password hashed'',
      Console Log ''Creating user in database...'',
      UsersCreate (new_user_row w v h),
      Console Log ''User created successfully:'',
      SupabaseUpdate (verification_update w) (own_property newUser ''id'')] @
     (if truthy updateError then [Console Warn ''Could not store verification code:''] else []) @
     [GenerateVerificationEmail (verificationCode w) (userName v),
      SendEmail (verification_email v html)] @
     (if sent then [] else [Console Warn ''Could not send verification email'']) @
     (if role v = ''agent''
      then [Console Log ''Agent registered - should be added to verification queue by trigger'']
      else []))"
proof -
  from assms have run:
    "\<not> env_missing (SUPABASE_URL w)" "\<not> env_missing (SUPABASE_ANON_KEY w)"
    "request_json w = Inr b" "registerUserSchema_parse w b = Inr v"
    "users_findByEmail w (email v) = Inr None"
    "bcrypt_hash w (password v) saltRounds = Inr h"
    "users_create w (new_user_row w v h) = Inr newUser"
    "supabase_update w (verification_update w) (own_property newUser ''id'') = Inr updateError"
    "generateVerificationEmail w (verificationCode w) (userName v) = Inr html"
    "sendEmail w (verification_email v html) = Inr sent"
    by (simp_all add: registration_run_def)
  show ?thesis
    unfolding try_block_supabase_validated [OF run(1-4)] check_existing_fresh [OF run(5)]
      create_user_resolved [OF run(6,7)] send_verification_resolved [OF run(8-10)]
    by (simp add: saltRounds_def)
qed

lemma catch_block_status:
  assumes "fst (catch_block w error) = Inr r"
  shows "status r = 400 \<or> status r = 500"
  using assms
  by (auto simp add: catch_block_def NextResponse_json_def then_do_Inr_iff ret_def
      split: if_splits)

lemma send_verification_Inr:
  assumes "fst (send_verification w v newUser) = Inr r"
  shows "\<exists>updateError html sent.
     supabase_update w (verification_update w) (own_property newUser ''id'') = Inr updateError \<and>
     generateVerificationEmail w (verificationCode w) (userName v) = Inr html \<and>
     sendEmail w (verification_email v html) = Inr sent \<and> r = created newUser"
  using assms
  by (auto simp add: send_verification_def then_do_Inr_iff call_def ret_def)

lemma create_user_Inr:
  assumes "fst (create_user w v) = Inr r"
  shows "\<exists>h newUser.
     bcrypt_hash w (password v) saltRounds = Inr h \<and>
     users_create w (new_user_row w v h) = Inr newUser \<and>
     fst (send_verification w v newUser) = Inr r"
  using assms
  by (auto simp add: create_user_def then_do_Inr_iff call_def)

lemma check_existing_Inr:
  assumes "fst (check_existing w v) = Inr r" and "status r = 201"
  shows "users_findByEmail w (email v) = Inr None \<and> fst (create_user w v) = Inr r"
  using assms
  by (auto simp add: check_existing_def then_do_Inr_iff call_def ret_def failure_json
      failure_def split: if_splits)

lemma try_block_supabase_Inr:
  assumes "fst (try_block_supabase w) = Inr r" and "status r = 201"
  shows "\<not> env_missing (SUPABASE_URL w) \<and> \<not> env_missing (SUPABASE_ANON_KEY w) \<and>
    (\<exists>b v. request_json w = Inr b \<and> registerUserSchema_parse w b = Inr v \<and>
       fst (check_existing w v) = Inr r)"
  using assms
  by (auto simp add: try_block_supabase_def then_do_Inr_iff call_def ret_def failure_json
      failure_def split: if_splits)

lemma try_block_supabase_201:
  assumes "fst (try_block_supabase w) = Inr r" and "status r = 201"
  shows "\<exists>b v h newUser updateError html sent.
           registration_run w b v h newUser updateError html sent \<and> r = created newUser"
proof -
  from try_block_supabase_Inr [OF assms] obtain b v where
    1: "\<not> env_missing (SUPABASE_URL w)" "\<not> env_missing (SUPABASE_ANON_KEY w)"
       "request_json w = Inr b" "registerUserSchema_parse w b = Inr v"
    and c: "fst (check_existing w v) = Inr r" by blast
  from check_existing_Inr [OF c assms(2)] have
    2: "users_findByEmail w (email v) = Inr None" and cu: "fst (create_user w v) = Inr r"
    by simp_all
  from create_user_Inr [OF cu] obtain h newUser where
    3: "bcrypt_hash w (password v) saltRounds = Inr h"
       "users_create w (new_user_row w v h) = Inr newUser"
    and sv: "fst (send_verification w v newUser) = Inr r" by blast
  from send_verification_Inr [OF sv] obtain updateError html sent where
    4: "supabase_update w (verification_update w) (own_property newUser ''id'') = Inr updateError"
       "generateVerificationEmail w (verificationCode w) (userName v) = Inr html"
       "sendEmail w (verification_email v html) = Inr sent" "r = created newUser" by blast
  from 1 2 3 4 show ?thesis
    unfolding registration_run_def by blast
qed

lemma POST_supabase_201:
  assumes "fst (POST_supabase w) = Returned r" and "status r = 201"
  shows "\<exists>b v h newUser updateError html sent.
           registration_run w b v h newUser updateError html sent \<and> r = created newUser"
proof (cases "fst (try_block_supabase w)")
  case (Inl e)
  from POST_supabase_throws [OF Inl] assms(1) have "fst (catch_block w e) = Inr r"
    by (simp split: sum.splits)
  from catch_block_status [OF this] assms(2) show ?thesis by simp
next
  case (Inr r')
  then have "fst (POST_supabase w) = Returned r'"
    by (cases "try_block_supabase w") (simp add: POST_supabase_def try_catch_def)
  with assms(1) have "r' = r" by simp
  with Inr try_block_supabase_201 [OF _ assms(2)] show ?thesis by simp
qed

subsection \<open>The try block of \<^verbatim>\<open>route.ts\<close>, statement by statement\<close>

lemma connection_test_ok:
  assumes "select_limit_1 w = Inr ()"
  shows "connection_test w = (Inr (), [SelectLimit1, Console Log ''Database query test successful''])"
  using assms by (simp add: connection_test_def comp_simps)

lemma try_block_drizzle_validated:
  assumes "\<not> env_missing (DATABASE_URL w)" and "\<not> env_missing (SUPABASE_URL w)"
    and "request_json w = Inr b"
    and "registerUserSchema_parse w b = Inr v"
  shows "try_block_drizzle w =
    (fst (check_existing_drizzle w v),
     [Console Log ''Environment variables check passed'',
      RequestJson,
      Console Log ''Request body received:'',
      SchemaParse b,
      Console Log ''Input validation passed''] @ snd (check_existing_drizzle w v))"
  using assms by (simp add: try_block_drizzle_def comp_simps)

lemma check_existing_drizzle_found:
  assumes "getDb w = Inr ()" and "select_limit_1 w = Inr ()"
    and "select_where_email w (email v) = Inr (u # others)"
  shows "check_existing_drizzle w v =
    (Inr (failure 400 ''User with this email already exists'' []),
     [GetDb,
      Console Log ''Database connection established'',
      SelectLimit1,
      Console Log ''Database query test successful'',
      SelectWhereEmail (email v),
      Console Log ''User already exists:''])"
  using assms
  by (simp add: check_existing_drizzle_def connection_test_ok comp_simps first_row_def
      failure_json)

lemma check_existing_drizzle_fresh:
  assumes "getDb w = Inr ()" and "select_limit_1 w = Inr ()"
    and "select_where_email w (email v) = Inr []"
  shows "check_existing_drizzle w v =
    (fst (insert_user w v),
     [GetDb,
      Console Log ''Database connection established'',
      SelectLimit1,
      Console Log ''Database query test successful'',
      SelectWhereEmail (email v),
      Console Log ''Email is available''] @ snd (insert_user w v))"
  using assms
  by (simp add: check_existing_drizzle_def connection_test_ok comp_simps first_row_def)

lemma insert_user_resolved:
  assumes "bcrypt_hash w (password v) saltRounds = Inr h"
    and "insert_returning w (new_user_values v h) = Inr (newUser # others)"
  shows "insert_user w v =
    (Inr (created_drizzle newUser),
     [BcryptHash (password v) saltRounds,
      Console Log ''Password hashed'',
      InsertReturning (new_user_values v h),
      Console Log ''User created successfully:''])"
  using assms
  by (simp add: insert_user_def comp_simps first_row_def rest_of_def created_drizzle_def)

lemma try_block_drizzle_registers:
  assumes "drizzle_run w b v h newUser others"
  shows "try_block_drizzle w =
    (Inr (created_drizzle newUser),
     [Console Log ''Environment variables check passed'',
      RequestJson,
      Console Log ''Request body received:'',
      SchemaParse b,
      Console Log ''Input validation passed'',
      GetDb,
      Console Log ''Database connection established'',
      SelectLimit1,
      Console Log ''Database query test successful'',
      SelectWhereEmail (email v),
      Console Log ''Email is available'',
      BcryptHash (password v) 12,
      Console Log ''Password hashed'',
      InsertReturning (new_user_values v h),
      Console Log ''User created successfully:''])"
proof -
  from assms have run:
    "\<not> env_missing (DATABASE_URL w)" "\<not> env_missing (SUPABASE_URL w)"
    "request_json w = Inr b" "registerUserSchema_parse w b = Inr v"
    "getDb w = Inr ()" "select_limit_1 w = Inr ()" "select_where_email w (email v) = Inr []"
    "bcrypt_hash w (password v) saltRounds = Inr h"
    "insert_returning w (new_user_values v h) = Inr (newUser # others)"
    by (simp_all add: drizzle_run_def)
  show ?thesis
    unfolding try_block_drizzle_validated [OF run(1-4)] check_existing_drizzle_fresh [OF run(5-7)]
      insert_user_resolved [OF run(8,9)]
    by (simp add: saltRounds_def)
qed

lemma insert_user_Inr:
  assumes "fst (insert_user w v) = Inr r"
  shows "\<exists>h newUser others.
     bcrypt_hash w (password v) saltRounds = Inr h \<and>
     insert_returning w (new_user_values v h) = Inr (newUser # others) \<and>
     r = created_drizzle newUser"
  using assms
  apply (clarsimp simp add: insert_user_def then_do_Inr_iff call_def ret_def attempt_def console_def)
  subgoal for h rows
    by (cases rows) (simp_all add: first_row_def rest_of_def created_drizzle_def)
  done

lemma connection_test_Inr:
  assumes "fst (connection_test w) = Inr u"
  shows "select_limit_1 w = Inr ()"
  using assms
  by (cases "select_limit_1 w")
     (simp_all add: connection_test_def call_def case_prod_beta then_do_Inr_iff attempt_def)

lemma check_existing_drizzle_Inr:
  assumes "fst (check_existing_drizzle w v) = Inr r" and "status r = 201"
  shows "getDb w = Inr () \<and> select_limit_1 w = Inr () \<and>
     select_where_email w (email v) = Inr [] \<and> fst (insert_user w v) = Inr r"
  using assms
  apply (clarsimp simp add: check_existing_drizzle_def then_do_Inr_iff call_def console_def)
  apply (frule connection_test_Inr)
  apply (auto simp add: first_row_def then_do_Inr_iff console_def ret_def failure_json failure_def
         split: if_splits list.splits)
  done

lemma try_block_drizzle_Inr:
  assumes "fst (try_block_drizzle w) = Inr r" and "status r = 201"
  shows "\<not> env_missing (DATABASE_URL w) \<and> \<not> env_missing (SUPABASE_URL w) \<and>
    (\<exists>b v. request_json w = Inr b \<and> registerUserSchema_parse w b = Inr v \<and>
       fst (check_existing_drizzle w v) = Inr r)"
  using assms
  by (auto simp add: try_block_drizzle_def then_do_Inr_iff call_def ret_def failure_json
      failure_def split: if_splits)

lemma POST_drizzle_201:
  assumes "fst (POST_drizzle w) = Returned r" and "status r = 201"
  shows "\<exists>b v h newUser others. drizzle_run w b v h newUser others \<and> r = created_drizzle newUser"
proof (cases "fst (try_block_drizzle w)")
  case (Inl e)
  from POST_drizzle_throws [OF Inl] assms(1) have "fst (catch_block w e) = Inr r"
    by (simp split: sum.splits)
  from catch_block_status [OF this] assms(2) show ?thesis by simp
next
  case (Inr r')
  then have "fst (POST_drizzle w) = Returned r'"
    by (cases "try_block_drizzle w") (simp add: POST_drizzle_def try_catch_def)
  with assms(1) have t: "fst (try_block_drizzle w) = Inr r" using Inr by simp
  from try_block_drizzle_Inr [OF t assms(2)] obtain b v where
    1: "\<not> env_missing (DATABASE_URL w)" "\<not> env_missing (SUPABASE_URL w)"
       "request_json w = Inr b" "registerUserSchema_parse w b = Inr v"
    and c: "fst (check_existing_drizzle w v) = Inr r" by blast
  from check_existing_drizzle_Inr [OF c assms(2)] have
    2: "getDb w = Inr ()" "select_limit_1 w = Inr ()" "select_where_email w (email v) = Inr []"
    and iu: "fst (insert_user w v) = Inr r" by simp_all
  from insert_user_Inr [OF iu] obtain h newUser others where
    3: "bcrypt_hash w (password v) saltRounds = Inr h"
       "insert_returning w (new_user_values v h) = Inr (newUser # others)"
       "r = created_drizzle newUser" by blast
  from 1 2 3 show ?thesis unfolding drizzle_run_def by blast
qed

subsection \<open>Rejected requests\<close>

text \<open>
  C3. A body that the schema rejects with a ZodError carrying at least one issue gets
  400 with \<^verbatim>\<open>success: false\<close> and the issues as a non-empty \<^verbatim>\<open>details\<close> list. The
  run reads the body and applies the schema; it makes no database call at all.
\<close>

theorem invalid_payload_rejected:
  assumes "\<not> env_missing (SUPABASE_URL w)" and "\<not> env_missing (SUPABASE_ANON_KEY w)"
    and "request_json w = Inr b"
    and "registerUserSchema_parse w b = Inl (Obj zod)"
    and "own_property zod ''name'' = Str ''ZodError''"
    and "own_property zod ''issues'' = Arr issues"
    and "issues \<noteq> []"
  shows "POST_supabase w =
    (Returned (failure 400 ''Invalid input data'' [(''details'', to_json (Arr issues))]),
     [Console Log ''Registration API called'',
      Console Log ''Environment variables check passed'',
      RequestJson,
      Console Log ''Request body received:'',
      SchemaParse b,
      Console Error ''Registration error details:'',
      Console Error ''Validation error:'']) \<and>
    (\<exists>ds. to_json (Arr issues) = Arr ds \<and> length ds = length issues \<and> ds \<noteq> []) \<and>
    filter is_db_event (snd (POST_supabase w)) = []"
proof -
  have "catch_block w (Obj zod) =
    (Inr (failure 400 ''Invalid input data'' [(''details'', to_json (Arr issues))]),
     [Console Error ''Registration error details:'', Console Error ''Validation error:''])"
    using catch_block_ZodError [of "Obj zod" "Arr issues" w] assms(5,6) by simp
  then have "POST_supabase w =
    (Returned (failure 400 ''Invalid input data'' [(''details'', to_json (Arr issues))]),
     [Console Log ''Registration API called'',
      Console Log ''Environment variables check passed'',
      RequestJson,
      Console Log ''Request body received:'',
      SchemaParse b,
      Console Error ''Registration error details:'',
      Console Error ''Validation error:''])"
    by (simp add: POST_supabase_def try_catch_def try_block_supabase_invalid [OF assms(1-4)])
  with assms(7) show ?thesis by simp
qed

theorem invalid_payload_rejected_witness:
  "\<not> env_missing (SUPABASE_URL (world_ex\<lparr>request_json := Inr (Obj [(''password'', Str ''x'')])\<rparr>)) \<and>
   \<not> env_missing
       (SUPABASE_ANON_KEY (world_ex\<lparr>request_json := Inr (Obj [(''password'', Str ''x'')])\<rparr>)) \<and>
   request_json (world_ex\<lparr>request_json := Inr (Obj [(''password'', Str ''x'')])\<rparr>) =
     Inr (Obj [(''password'', Str ''x'')]) \<and>
   registerUserSchema_parse (world_ex\<lparr>request_json := Inr (Obj [(''password'', Str ''x'')])\<rparr>)
     (Obj [(''password'', Str ''x'')]) = Inl zod_error_ex \<and>
   fst (POST_supabase (world_ex\<lparr>request_json := Inr (Obj [(''password'', Str ''x'')])\<rparr>)) =
     Returned (failure 400 ''Invalid input data''
       [(''details'', Arr [Obj [(''code'', Str ''invalid_type''),
                                (''expected'', Str ''string''),
                                (''received'', Str ''undefined''),
                                (''path'', Arr [Str ''email'']),
                                (''message'', Str ''Required'')]])]) \<and>
   filter is_db_event
     (snd (POST_supabase (world_ex\<lparr>request_json := Inr (Obj [(''password'', Str ''x'')])\<rparr>))) = []"
  using invalid_payload_rejected
    [of "world_ex\<lparr>request_json := Inr (Obj [(''password'', Str ''x'')])\<rparr>"
        "Obj [(''password'', Str ''x'')]"
        "[(''name'', Str ''ZodError''),
          (''issues'', Arr [Obj [(''code'', Str ''invalid_type''),
                                (''expected'', Str ''string''),
                                (''received'', Str ''undefined''),
                                (''path'', Arr [Str ''email'']),
                                (''message'', Str ''Required'')]]),
          (''message'', Str ''Required'')]"
        "[Obj [(''code'', Str ''invalid_type''),
               (''expected'', Str ''string''),
               (''received'', Str ''undefined''),
               (''path'', Arr [Str ''email'']),
               (''message'', Str ''Required'')]]"]
  by (simp add: world_ex_def env_missing_def body_ex_def zod_error_ex_def own_property_def)

text \<open>
  C2. When the lookup before the insert finds a user with the payload's e-mail address,
  the handler answers 400 "User with this email already exists". The run ends with the
  lookup and one console line: no password is hashed, nothing is inserted or updated and
  no e-mail is sent. In \<^verbatim>\<open>route.ts\<close> the lookup is the \<^verbatim>\<open>select\<close> after the
  connection test.
\<close>

theorem existing_email_rejected:
  "(\<not> env_missing (SUPABASE_URL w) \<and> \<not> env_missing (SUPABASE_ANON_KEY w) \<and>
    request_json w = Inr b \<and> registerUserSchema_parse w b = Inr v \<and>
    users_findByEmail w (email v) = Inr (Some u) \<longrightarrow>
      POST_supabase w =
        (Returned (failure 400 ''User with this email already exists'' []),
         [Console Log ''Registration API called'',
          Console Log ''Environment variables check passed'',
          RequestJson,
          Console Log ''Request body received:'',
          SchemaParse b,
          Console Log ''Input validation passed'',
          Console Log ''Using Supabase client for database operations'',
          Console Log ''Checking if user exists...'',
          FindByEmail (email v),
          Console Log ''User already exists:''])) \<and>
   (\<not> env_missing (DATABASE_URL w) \<and> \<not> env_missing (SUPABASE_URL w) \<and>
    request_json w = Inr b \<and> registerUserSchema_parse w b = Inr v \<and>
    getDb w = Inr () \<and> select_limit_1 w = Inr () \<and>
    select_where_email w (email v) = Inr (u # others) \<longrightarrow>
      POST_drizzle w =
        (Returned (failure 400 ''User with this email already exists'' []),
         [Console Log ''Registration API called'',
          Console Log ''Environment variables check passed'',
          RequestJson,
          Console Log ''Request body received:'',
          SchemaParse b,
          Console Log ''Input validation passed'',
          GetDb,
          Console Log ''Database connection established'',
          SelectLimit1,
          Console Log ''Database query test successful'',
          SelectWhereEmail (email v),
          Console Log ''User already exists:''])) \<and>
   str_includes ''User with this email already exists'' ''already exists''"
proof (intro conjI impI)
  assume "\<not> env_missing (SUPABASE_URL w) \<and> \<not> env_missing (SUPABASE_ANON_KEY w) \<and>
    request_json w = Inr b \<and> registerUserSchema_parse w b = Inr v \<and>
    users_findByEmail w (email v) = Inr (Some u)"
  then have "try_block_supabase w =
        (Inr (failure 400 ''User with this email already exists'' []),
         [Console Log ''Environment variables check passed'',
          RequestJson,
          Console Log ''Request body received:'',
          SchemaParse b,
          Console Log ''Input validation passed'',
          Console Log ''Using Supabase client for database operations'',
          Console Log ''Checking if user exists...'',
          FindByEmail (email v),
          Console Log ''User already exists:''])"
    by (simp add: try_block_supabase_validated [of w b v] check_existing_found [of w v u])
  then show "POST_supabase w =
        (Returned (failure 400 ''User with this email already exists'' []),
         [Console Log ''Registration API called'',
          Console Log ''Environment variables check passed'',
          RequestJson,
          Console Log ''Request body received:'',
          SchemaParse b,
          Console Log ''Input validation passed'',
          Console Log ''Using Supabase client for database operations'',
          Console Log ''Checking if user exists...'',
          FindByEmail (email v),
          Console Log ''User already exists:''])"
    by (rule POST_supabase_returns)
next
  assume "\<not> env_missing (DATABASE_URL w) \<and> \<not> env_missing (SUPABASE_URL w) \<and>
    request_json w = Inr b \<and> registerUserSchema_parse w b = Inr v \<and>
    getDb w = Inr () \<and> select_limit_1 w = Inr () \<and>
    select_where_email w (email v) = Inr (u # others)"
  then have "try_block_drizzle w =
        (Inr (failure 400 ''User with this email already exists'' []),
         [Console Log ''Environment variables check passed'',
          RequestJson,
          Console Log ''Request body received:'',
          SchemaParse b,
          Console Log ''Input validation passed'',
          GetDb,
          Console Log ''Database connection established'',
          SelectLimit1,
          Console Log ''Database query test successful'',
          SelectWhereEmail (email v),
          Console Log ''User already exists:''])"
    by (simp add: try_block_drizzle_validated [of w b v]
        check_existing_drizzle_found [of w v u others])
  then show "POST_drizzle w =
        (Returned (failure 400 ''User with this email already exists'' []),
         [Console Log ''Registration API called'',
          Console Log ''Environment variables check passed'',
          RequestJson,
          Console Log ''Request body received:'',
          SchemaParse b,
          Console Log ''Input validation passed'',
          GetDb,
          Console Log ''Database connection established'',
          SelectLimit1,
          Console Log ''Database query test successful'',
          SelectWhereEmail (email v),
          Console Log ''User already exists:''])"
    by (rule POST_drizzle_returns)
next
  show "str_includes ''User with this email already exists'' ''already exists''"
    by simp
qed

theorem existing_email_rejected_witness:
  "\<not> env_missing (SUPABASE_URL world_taken_ex) \<and>
   \<not> env_missing (SUPABASE_ANON_KEY world_taken_ex) \<and>
   \<not> env_missing (DATABASE_URL world_taken_ex) \<and>
   request_json world_taken_ex = Inr body_ex \<and>
   registerUserSchema_parse world_taken_ex body_ex = Inr validated_ex \<and>
   users_findByEmail world_taken_ex (email validated_ex) =
     Inr (Some [(''id'', Str ''u-0''), (''email'', Str ''a@b.com'')]) \<and>
   getDb world_taken_ex = Inr () \<and> select_limit_1 world_taken_ex = Inr () \<and>
   select_where_email world_taken_ex (email validated_ex) =
     Inr ([(''id'', Str ''u-0''), (''email'', Str ''a@b.com'')] # []) \<and>
   POST_supabase world_taken_ex =
     (Returned (failure 400 ''User with this email already exists'' []),
      [Console Log ''Registration API called'',
       Console Log ''Environment variables check passed'',
       RequestJson,
       Console Log ''Request body received:'',
       SchemaParse body_ex,
       Console Log ''Input validation passed'',
       Console Log ''Using Supabase client for database operations'',
       Console Log ''Checking if user exists...'',
       FindByEmail ''a@b.com'',
       Console Log ''User already exists:'']) \<and>
   POST_drizzle world_taken_ex =
     (Returned (failure 400 ''User with this email already exists'' []),
      [Console Log ''Registration API called'',
       Console Log ''Environment variables check passed'',
       RequestJson,
       Console Log ''Request body received:'',
       SchemaParse body_ex,
       Console Log ''Input validation passed'',
       GetDb,
       Console Log ''Database connection established'',
       SelectLimit1,
       Console Log ''Database query test successful'',
       SelectWhereEmail ''a@b.com'',
       Console Log ''User already exists:''])"
  using existing_email_rejected
    [of world_taken_ex body_ex validated_ex "[(''id'', Str ''u-0''), (''email'', Str ''a@b.com'')]"
        "[]"]
  by (simp add: world_taken_ex_def world_ex_def env_missing_def validated_ex_def)

subsection \<open>Rounding to double precision\<close>

lemma bit_length_less: "n < 2 ^ bit_length n"
proof (induction n rule: bit_length.induct)
  case (1 n)
  show ?case
  proof (cases "n = 0")
    case True
    then show ?thesis by simp
  next
    case False
    with 1 have "n div 2 < 2 ^ bit_length (n div 2)" by simp
    then have "n < 2 * 2 ^ bit_length (n div 2)" by linarith
    with False show ?thesis by (subst bit_length.simps) simp
  qed
qed

lemma bit_length_ge: "0 < n \<Longrightarrow> 2 ^ (bit_length n - 1) \<le> n"
proof (induction n rule: bit_length.induct)
  case (1 n)
  show ?case
  proof (cases "n div 2 = 0")
    case True
    with 1(2) have "n = 1" by linarith
    then show ?thesis by (subst bit_length.simps) (simp add: bit_length.simps)
  next
    case False
    with 1 have ih: "2 ^ (bit_length (n div 2) - 1) \<le> n div 2" by simp
    from False have "0 < bit_length (n div 2)" by (subst bit_length.simps) simp
    then have "(2::nat) ^ bit_length (n div 2) = 2 * 2 ^ (bit_length (n div 2) - 1)"
      by (cases "bit_length (n div 2)") simp_all
    with ih have "2 ^ bit_length (n div 2) \<le> n" by linarith
    with 1(2) show ?thesis by (subst bit_length.simps) simp
  qed
qed

lemma bit_length_le: "n < 2 ^ j \<Longrightarrow> bit_length n \<le> j"
proof (rule ccontr)
  assume n: "n < 2 ^ j" and "\<not> bit_length n \<le> j"
  then have j: "j \<le> bit_length n - 1" and pos: "0 < n"
    by (auto simp add: bit_length.simps intro: gr0I)
  from bit_length_ge [OF pos] have "2 ^ (bit_length n - 1) \<le> n" .
  moreover from j have "(2::nat) ^ j \<le> 2 ^ (bit_length n - 1)" by (rule power_increasing) simp
  ultimately show False using n by linarith
qed

lemma bit_length_gt: "2 ^ j \<le> n \<Longrightarrow> j < bit_length n"
proof (rule ccontr)
  assume n: "2 ^ j \<le> n" and "\<not> j < bit_length n"
  then have "bit_length n \<le> j" by simp
  then have "(2::nat) ^ bit_length n \<le> 2 ^ j" by (rule power_increasing) simp
  with bit_length_less [of n] n show False by linarith
qed

lemma round53_exact: "bit_length n \<le> 53 \<Longrightarrow> round53 n = n"
  by (simp add: round53_def)

lemma round53_cases:
  assumes "53 < bit_length n"
  shows "(round53 n = (n div 2 ^ (bit_length n - 53)) * 2 ^ (bit_length n - 53) \<and>
          2 * (n mod 2 ^ (bit_length n - 53)) \<le> 2 ^ (bit_length n - 53)) \<or>
         (round53 n = (n div 2 ^ (bit_length n - 53) + 1) * 2 ^ (bit_length n - 53) \<and>
          2 ^ (bit_length n - 53) \<le> 2 * (n mod 2 ^ (bit_length n - 53)))"
proof -
  define s where "s = bit_length n - 53"
  define q where "q = n div 2 ^ s"
  define r where "r = n mod 2 ^ s"
  have rd: "round53 n = (if 2 ^ s < 2 * r \<or> (2 * r = 2 ^ s \<and> odd q) then q + 1 else q) * 2 ^ s"
    using assms by (simp add: round53_def Let_def s_def q_def r_def)
  have "(round53 n = q * 2 ^ s \<and> 2 * r \<le> 2 ^ s) \<or>
        (round53 n = (q + 1) * 2 ^ s \<and> 2 ^ s \<le> 2 * r)"
  proof (cases "2 ^ s < 2 * r \<or> (2 * r = 2 ^ s \<and> odd q)")
    case True
    then have "2 ^ s \<le> 2 * r" by auto
    moreover from True rd have "round53 n = (q + 1) * 2 ^ s" by (simp only: if_True)
    ultimately show ?thesis by blast
  next
    case False
    then have "2 * r \<le> 2 ^ s" by auto
    moreover from False rd have "round53 n = q * 2 ^ s" by (simp only: if_False)
    ultimately show ?thesis by blast
  qed
  then show ?thesis unfolding s_def q_def r_def .
qed

lemma round53_below_mid:
  assumes "2 ^ (bit_length n - 53) dvd g" and "2 * n < 2 * g + 2 ^ (bit_length n - 53)"
  shows "round53 n \<le> g"
proof (cases "bit_length n \<le> 53")
  case True
  with assms(2) show ?thesis by (simp add: round53_exact)
next
  case False
  define s where "s = bit_length n - 53"
  define q where "q = n div 2 ^ s"
  define r where "r = n mod 2 ^ s"
  from assms(1) obtain j where g: "g = 2 ^ s * j" unfolding s_def by (auto simp: dvd_def)
  have n: "n = q * 2 ^ s + r"
    unfolding q_def r_def by (rule div_mult_mod_eq [symmetric])
  have r: "r < 2 ^ s" by (simp add: r_def)
  from assms(2) have "2 * n < 2 * g + 2 ^ s" by (simp only: s_def)
  then have lt: "2 * (q * 2 ^ s + r) < 2 * (2 ^ s * j) + 2 ^ s"
    by (simp only: n [symmetric] g [symmetric])
  have qj: "q \<le> j"
  proof (rule ccontr)
    assume "\<not> q \<le> j"
    then have "j + 1 \<le> q" by simp
    then have "(j + 1) * 2 ^ s \<le> q * 2 ^ s" by (rule mult_le_mono1)
    with lt show False by (simp add: algebra_simps)
  qed
  show ?thesis
  proof (cases "q = j")
    case True
    with lt have "2 * r < 2 ^ s" by (simp add: algebra_simps)
    with False have "round53 n = q * 2 ^ s"
      by (simp add: round53_def Let_def s_def q_def r_def)
    with True g show ?thesis by (simp add: mult.commute)
  next
    case neq: False
    with qj have "q + 1 \<le> j" by simp
    then have le: "(q + 1) * 2 ^ s \<le> j * 2 ^ s" by (rule mult_le_mono1)
    have "round53 n \<le> (q + 1) * 2 ^ s"
      using False by (simp add: round53_def Let_def s_def q_def r_def)
    with le g show ?thesis by (simp add: mult.commute)
  qed
qed

lemma round53_above_mid:
  assumes "2 ^ (bit_length n - 53) dvd g" and "2 * g < 2 * n + 2 ^ (bit_length n - 53)"
  shows "g \<le> round53 n"
proof (cases "bit_length n \<le> 53")
  case True
  with assms(2) show ?thesis by (simp add: round53_exact)
next
  case False
  define s where "s = bit_length n - 53"
  define q where "q = n div 2 ^ s"
  define r where "r = n mod 2 ^ s"
  from assms(1) obtain j where g: "g = 2 ^ s * j" unfolding s_def by (auto simp: dvd_def)
  have n: "n = q * 2 ^ s + r"
    unfolding q_def r_def by (rule div_mult_mod_eq [symmetric])
  have r: "r < 2 ^ s" by (simp add: r_def)
  from assms(2) have "2 * g < 2 * n + 2 ^ s" by (simp only: s_def)
  then have lt: "2 * (2 ^ s * j) < 2 * (q * 2 ^ s + r) + 2 ^ s"
    by (simp only: n [symmetric] g [symmetric])
  have jq: "j \<le> q + 1"
  proof (rule ccontr)
    assume "\<not> j \<le> q + 1"
    then have "q + 2 \<le> j" by simp
    then have "(q + 2) * 2 ^ s \<le> j * 2 ^ s" by (rule mult_le_mono1)
    with lt r show False by (simp add: algebra_simps)
  qed
  show ?thesis
  proof (cases "j \<le> q")
    case True
    then have le: "j * 2 ^ s \<le> q * 2 ^ s" by (rule mult_le_mono1)
    have "q * 2 ^ s \<le> round53 n"
      using False by (simp add: round53_def Let_def s_def q_def r_def)
    with le have "j * 2 ^ s \<le> round53 n" by (rule order_trans)
    with g show ?thesis by (simp add: mult.commute)
  next
    case neq: False
    with jq have j: "j = q + 1" by simp
    with lt have "2 ^ s < 2 * r" by (simp add: algebra_simps)
    with False have "round53 n = (q + 1) * 2 ^ s"
      by (simp add: round53_def Let_def s_def q_def r_def)
    with j g show ?thesis by (simp add: mult.commute)
  qed
qed

lemma round53_le:
  assumes "2 ^ (bit_length n - 53) dvd g" and "n \<le> g"
  shows "round53 n \<le> g"
proof (rule round53_below_mid [OF assms(1)])
  have "(0::nat) < 2 ^ (bit_length n - 53)" by simp
  with assms(2) show "2 * n < 2 * g + 2 ^ (bit_length n - 53)" by linarith
qed

lemma round53_ge:
  assumes "2 ^ (bit_length n - 53) dvd g" and "g \<le> n"
  shows "g \<le> round53 n"
proof (rule round53_above_mid [OF assms(1)])
  have "(0::nat) < 2 ^ (bit_length n - 53)" by simp
  with assms(2) show "2 * g < 2 * n + 2 ^ (bit_length n - 53)" by linarith
qed

lemma round53_error:
  assumes "53 < bit_length n"
  shows "2 * round53 n \<le> 2 * n + 2 ^ (bit_length n - 53)"
    and "2 * n \<le> 2 * round53 n + 2 ^ (bit_length n - 53)"
proof -
  define s where "s = bit_length n - 53"
  define q where "q = n div 2 ^ s"
  define r where "r = n mod 2 ^ s"
  have n: "n = q * 2 ^ s + r"
    unfolding q_def r_def by (rule div_mult_mod_eq [symmetric])
  have r: "r < 2 ^ s" by (simp add: r_def)
  from round53_cases [OF assms]
  have "(round53 n = q * 2 ^ s \<and> 2 * r \<le> 2 ^ s) \<or>
        (round53 n = (q + 1) * 2 ^ s \<and> 2 ^ s \<le> 2 * r)"
    unfolding s_def q_def r_def .
  then have "2 * round53 n \<le> 2 * n + 2 ^ s \<and> 2 * n \<le> 2 * round53 n + 2 ^ s"
  proof
    assume "round53 n = q * 2 ^ s \<and> 2 * r \<le> 2 ^ s"
    with n show ?thesis by linarith
  next
    assume "round53 n = (q + 1) * 2 ^ s \<and> 2 ^ s \<le> 2 * r"
    moreover have "(q + 1) * 2 ^ s = q * 2 ^ s + 2 ^ s" by (simp add: algebra_simps)
    ultimately show ?thesis using n r by linarith
  qed
  then show "2 * round53 n \<le> 2 * n + 2 ^ (bit_length n - 53)"
    and "2 * n \<le> 2 * round53 n + 2 ^ (bit_length n - 53)"
    by (simp_all add: s_def)
qed

lemma round53_dvd: "2 ^ (bit_length n - 53) dvd round53 n"
  by (cases "bit_length n \<le> 53") (simp_all add: round53_def Let_def)

lemma round53_error_bound:
  assumes "bit_length n \<le> j + 53"
  shows "2 * round53 n \<le> 2 * n + 2 ^ j" and "2 * n \<le> 2 * round53 n + 2 ^ j"
proof -
  have "2 * round53 n \<le> 2 * n + 2 ^ j \<and> 2 * n \<le> 2 * round53 n + 2 ^ j"
  proof (cases "bit_length n \<le> 53")
    case True
    then show ?thesis by (simp add: round53_exact)
  next
    case False
    then have b: "53 < bit_length n" by simp
    from assms have "bit_length n - 53 \<le> j" by simp
    then have "(2::nat) ^ (bit_length n - 53) \<le> 2 ^ j" by (rule power_increasing) simp
    with round53_error [OF b] show ?thesis by linarith
  qed
  then show "2 * round53 n \<le> 2 * n + 2 ^ j" and "2 * n \<le> 2 * round53 n + 2 ^ j"
    by simp_all
qed

lemma grid_dvd:
  fixes g :: nat
  assumes "bit_length n \<le> j + 53" and "2 ^ j dvd g"
  shows "2 ^ (bit_length n - 53) dvd g"
proof -
  from assms(1) have "bit_length n - 53 \<le> j" by simp
  then have "(2::nat) ^ (bit_length n - 53) dvd 2 ^ j" by (rule le_imp_power_dvd)
  then show ?thesis using assms(2) by (rule dvd_trans)
qed

lemma scale_powers:
  assumes "53 \<le> k"
  obtains U :: nat where "0 < U" "2 ^ k = 9007199254740992 * U"
    "2 ^ (k - 33) = 1048576 * U" "2 ^ (k - 53) = U" "2 ^ (k - 1) = 4503599627370496 * U"
    "2 ^ (k + 20) = 9444732965739290427392 * U" "2 ^ (k + 19) = 4722366482869645213696 * U"
proof -
  define U :: nat where "U = 2 ^ (k - 53)"
  have "0 < U" by (simp add: U_def)
  moreover have "(2::nat) ^ k = 2 ^ (53 + (k - 53))" using assms by simp
  then have "(2::nat) ^ k = 9007199254740992 * U" by (simp only: power_add U_def) simp
  moreover have "(2::nat) ^ (k - 33) = 2 ^ (20 + (k - 53))" using assms by simp
  then have "(2::nat) ^ (k - 33) = 1048576 * U" by (simp only: power_add U_def) simp
  moreover have "(2::nat) ^ (k - 1) = 2 ^ (52 + (k - 53))" using assms by simp
  then have "(2::nat) ^ (k - 1) = 4503599627370496 * U" by (simp only: power_add U_def) simp
  moreover have "(2::nat) ^ (k + 20) = 2 ^ (73 + (k - 53))" using assms by simp
  then have "(2::nat) ^ (k + 20) = 9444732965739290427392 * U"
    by (simp only: power_add U_def) simp
  moreover have "(2::nat) ^ (k + 19) = 2 ^ (72 + (k - 53))" using assms by simp
  then have "(2::nat) ^ (k + 19) = 4722366482869645213696 * U"
    by (simp only: power_add U_def) simp
  ultimately show ?thesis using that U_def by blast
qed

lemma unit_double_max:
  assumes "unit_double (m, k)"
  shows "m + 2 ^ (k - 53) \<le> 2 ^ k"
proof -
  from assms have k: "53 \<le> k" and m: "m < 2 ^ k" and r: "round53 m = m"
    by (simp_all add: unit_double_def)
  from scale_powers [OF k] obtain U :: nat where U: "0 < U" "2 ^ k = 9007199254740992 * U"
    "2 ^ (k - 53) = U" "2 ^ (k - 1) = 4503599627370496 * U" by metis
  show ?thesis
  proof (cases "m < 2 ^ (k - 1)")
    case True
    with U show ?thesis by linarith
  next
    case False
    then have "2 ^ (k - 1) \<le> m" by simp
    then have "k - 1 < bit_length m" by (rule bit_length_gt)
    moreover from m have "bit_length m \<le> k" by (rule bit_length_le)
    ultimately have "bit_length m = k" using k by linarith
    with round53_dvd [of m] r U(3) have "U dvd m" by simp
    then obtain j where j: "m = U * j" by (auto simp: dvd_def)
    with m U(1,2) have "U * j < U * 9007199254740992" by (simp add: mult.commute)
    then have "j < 9007199254740992" using U(1) by simp
    then have "j + 1 \<le> 9007199254740992" by simp
    then have "U * (j + 1) \<le> U * 9007199254740992" by (rule mult_le_mono2)
    with j U show ?thesis by (simp add: algebra_simps)
  qed
qed

lemma random_code_bounds:
  assumes "unit_double (m, k)"
  shows "100000 * 2 ^ k \<le> round53 (100000 * 2 ^ k + round53 (m * 900000))"
    and "round53 (100000 * 2 ^ k + round53 (m * 900000)) + 2 ^ (k - 33) \<le> 1000000 * 2 ^ k"
    and "round53 (100000 * 2 ^ k + round53 (m * 900000)) \<le>
           100000 * 2 ^ k + m * 900000 + 2 ^ (k - 33)"
    and "100000 * 2 ^ k + m * 900000 \<le>
           round53 (100000 * 2 ^ k + round53 (m * 900000)) + 2 ^ (k - 33)"
proof -
  from assms have k: "53 \<le> k" by (simp add: unit_double_def)
  from scale_powers [OF k] obtain U :: nat where U: "0 < U"
    and pk: "2 ^ k = 9007199254740992 * U"
    and p33: "2 ^ (k - 33) = 1048576 * U"
    and p53: "2 ^ (k - 53) = U"
    and p20: "2 ^ (k + 20) = 9444732965739290427392 * U"
    and p19: "2 ^ (k + 19) = 4722366482869645213696 * U" by metis
  have k20: "k + 20 = (k - 33) + 53" using k by simp
  define X where "X = m * 900000"
  define P where "P = round53 X"
  define Y where "Y = 100000 * 2 ^ k + P"
  define Z where "Z = round53 Y"
  from unit_double_max [OF assms] pk p53 have mmax: "m + U \<le> 9007199254740992 * U" by simp
  then have Xmax: "X + 900000 * U \<le> 8106479329266892800000 * U" by (simp add: X_def)
  with U have "X < 9444732965739290427392 * U" by linarith
  then have "X < 2 ^ (k + 20)" by (simp only: p20)
  then have "bit_length X \<le> k + 20" by (rule bit_length_le)
  then have blX: "bit_length X \<le> (k - 33) + 53" by (simp only: k20)
  define g where "g = 8106479329266891751424 * U"
  have "g = 2 ^ (k - 33) * 7730941132799999" by (simp add: g_def p33)
  then have dvdg: "2 ^ (k - 33) dvd g" by simp
  have Pg: "P \<le> g"
  proof (cases "X \<le> g")
    case True
    with grid_dvd [OF blX dvdg] show ?thesis unfolding P_def by (rule round53_le)
  next
    case False
    have "4722366482869645213696 * U \<le> g" using U by (simp add: g_def)
    with False have "4722366482869645213696 * U \<le> X" by linarith
    then have "2 ^ (k + 19) \<le> X" by (simp only: p19)
    then have "k + 19 < bit_length X" by (rule bit_length_gt)
    with blX k have bl: "bit_length X - 53 = k - 33" by linarith
    have mid: "2 * X < 2 * g + 2 ^ (bit_length X - 53)"
      unfolding bl p33 g_def using Xmax U by linarith
    from dvdg have "2 ^ (bit_length X - 53) dvd g" by (simp only: bl)
    then show ?thesis unfolding P_def using mid by (rule round53_below_mid)
  qed
  define g2 where "g2 = 9007199254740990951424 * U"
  have "g2 = 2 ^ (k - 33) * 8589934591999999" by (simp add: g2_def p33)
  then have dvdg2: "2 ^ (k - 33) dvd g2" by simp
  have Yg2: "Y \<le> g2" using Pg by (simp add: Y_def pk g_def g2_def)
  with U have "Y < 9444732965739290427392 * U" by (simp add: g2_def)
  then have "Y < 2 ^ (k + 20)" by (simp only: p20)
  then have "bit_length Y \<le> k + 20" by (rule bit_length_le)
  then have blY: "bit_length Y \<le> (k - 33) + 53" by (simp only: k20)
  have Zg2: "Z \<le> g2"
    unfolding Z_def using grid_dvd [OF blY dvdg2] Yg2 by (rule round53_le)
  have "(100000::nat) * 2 ^ k = 2 ^ (k - 33) * 858993459200000" by (simp add: pk p33)
  then have dvdl: "2 ^ (k - 33) dvd (100000::nat) * 2 ^ k" by simp
  have "100000 * 2 ^ k \<le> Y" by (simp add: Y_def)
  with grid_dvd [OF blY dvdl] have Zl: "100000 * 2 ^ k \<le> Z"
    unfolding Z_def by (rule round53_ge)
  from round53_error_bound [OF blX] have eX: "2 * P \<le> 2 * X + 1048576 * U" "2 * X \<le> 2 * P + 1048576 * U"
    by (simp_all add: P_def p33)
  from round53_error_bound [OF blY] have eY: "2 * Z \<le> 2 * Y + 1048576 * U" "2 * Y \<le> 2 * Z + 1048576 * U"
    by (simp_all add: Z_def p33)
  have Yd: "Y = 100000 * 2 ^ k + P" by (rule Y_def)
  show "100000 * 2 ^ k \<le> round53 (100000 * 2 ^ k + round53 (m * 900000))"
    using Zl by (simp only: Z_def Y_def P_def X_def)
  have "Z + 2 ^ (k - 33) \<le> 1000000 * 2 ^ k"
    using Zg2 by (simp add: g2_def pk p33)
  then show "round53 (100000 * 2 ^ k + round53 (m * 900000)) + 2 ^ (k - 33) \<le> 1000000 * 2 ^ k"
    by (simp only: Z_def Y_def P_def X_def)
  have "Z \<le> 100000 * 2 ^ k + X + 2 ^ (k - 33)"
    unfolding p33 using eX eY Yd by linarith
  then show "round53 (100000 * 2 ^ k + round53 (m * 900000)) \<le>
           100000 * 2 ^ k + m * 900000 + 2 ^ (k - 33)"
    by (simp only: Z_def Y_def P_def X_def)
  have "100000 * 2 ^ k + X \<le> Z + 2 ^ (k - 33)"
    unfolding p33 using eX eY Yd by linarith
  then show "100000 * 2 ^ k + m * 900000 \<le>
           round53 (100000 * 2 ^ k + round53 (m * 900000)) + 2 ^ (k - 33)"
    by (simp only: Z_def Y_def P_def X_def)
qed

lemma less_succ_div_times:
  fixes a b :: nat
  assumes "0 < b"
  shows "a < (a div b + 1) * b"
proof -
  have "a div b * b + a mod b = a" by (rule div_mult_mod_eq)
  moreover have "a mod b < b" using assms by simp
  ultimately have "a < a div b * b + b" by linarith
  then show ?thesis by (simp add: algebra_simps)
qed

lemma div_le_D: "(a::real) / c \<le> b / c \<Longrightarrow> 0 < c \<Longrightarrow> a \<le> b"
  by (simp add: divide_le_cancel)

lemma div_less_D: "(a::real) / c < b / c \<Longrightarrow> 0 < c \<Longrightarrow> a < b"
  by (simp add: divide_less_cancel)

lemma div_le_I: "(a::real) \<le> b \<Longrightarrow> 0 < c \<Longrightarrow> a / c \<le> b / c"
  by (simp add: divide_right_mono)

lemma div_less_I: "(a::real) < b \<Longrightarrow> 0 < c \<Longrightarrow> a / c < b / c"
  by (simp add: divide_strict_right_mono)

lemma random_code_eq:
  "random_code (m, k) = round53 (100000 * 2 ^ k + round53 (m * 900000)) div 2 ^ k"
  by (simp add: random_code_def Math_floor_def double_plus_def double_times_def
      double_of_nat_def)

lemma random_code_range:
  assumes "unit_double d"
  shows "100000 \<le> random_code d" and "random_code d \<le> 999999"
proof -
  obtain m k where d: "d = (m, k)" by (cases d)
  note b = random_code_bounds [OF assms [unfolded d]]
  let ?Z = "round53 (100000 * 2 ^ k + round53 (m * 900000))"
  from b(1) have "100000 * 2 ^ k div 2 ^ k \<le> ?Z div 2 ^ k" by (rule div_le_mono)
  then show "100000 \<le> random_code d" by (simp add: random_code_eq d)
  have "(0::nat) < 2 ^ (k - 33)" by simp
  with b(2) have "?Z < 1000000 * 2 ^ k" by linarith
  then have "?Z div 2 ^ k < 1000000" by (simp add: less_mult_imp_div_less)
  then show "random_code d \<le> 999999" by (simp add: random_code_eq d)
qed

lemma random_code_inner_nat:
  assumes "unit_double (m, k)"
    and "n * 2 ^ k + 2 ^ (k - 33) \<le> 100000 * 2 ^ k + m * 900000"
    and "100000 * 2 ^ k + m * 900000 + 2 ^ (k - 33) < (n + 1) * 2 ^ k"
  shows "random_code (m, k) = n"
proof -
  note b = random_code_bounds [OF assms(1)]
  let ?Z = "round53 (100000 * 2 ^ k + round53 (m * 900000))"
  from b(4) assms(2) have lo: "n * 2 ^ k \<le> ?Z" by linarith
  from b(3) assms(3) have hi: "?Z < (n + 1) * 2 ^ k" by linarith
  from lo have "n * 2 ^ k div 2 ^ k \<le> ?Z div 2 ^ k" by (rule div_le_mono)
  then have "n \<le> ?Z div 2 ^ k" by simp
  moreover from hi have "?Z div 2 ^ k < n + 1" by (simp add: less_mult_imp_div_less)
  ultimately show ?thesis by (simp add: random_code_eq)
qed

lemma random_code_outer_nat:
  assumes "unit_double (m, k)" and "random_code (m, k) = n"
  shows "n * 2 ^ k \<le> 100000 * 2 ^ k + m * 900000 + 2 ^ (k - 33)"
    and "100000 * 2 ^ k + m * 900000 < (n + 1) * 2 ^ k + 2 ^ (k - 33)"
proof -
  note b = random_code_bounds [OF assms(1)]
  let ?Z = "round53 (100000 * 2 ^ k + round53 (m * 900000))"
  from assms(2) have n: "?Z div 2 ^ k = n" by (simp add: random_code_eq)
  have "?Z div 2 ^ k * 2 ^ k \<le> ?Z" by simp
  with n have lo: "n * 2 ^ k \<le> ?Z" by simp
  have "?Z < (?Z div 2 ^ k + 1) * 2 ^ k"
    by (rule less_succ_div_times) simp
  with n have hi: "?Z < (n + 1) * 2 ^ k" by simp
  from lo b(3) show "n * 2 ^ k \<le> 100000 * 2 ^ k + m * 900000 + 2 ^ (k - 33)" by linarith
  from hi b(4) show "100000 * 2 ^ k + m * 900000 < (n + 1) * 2 ^ k + 2 ^ (k - 33)" by linarith
qed

lemma scaled_aux:
  fixes a x y :: real
  assumes "0 < a"
  shows "100000 + 900000 * (y / (8589934592 * a)) = (100000 * (8589934592 * a) + y * 900000) / (8589934592 * a)"
    and "x + 1 / 8589934592 = (x * (8589934592 * a) + a) / (8589934592 * a)"
    and "x + 1 - 1 / 8589934592 = ((x + 1) * (8589934592 * a) - a) / (8589934592 * a)"
    and "x - 1 / 8589934592 = (x * (8589934592 * a) - a) / (8589934592 * a)"
    and "x + 1 + 1 / 8589934592 = ((x + 1) * (8589934592 * a) + a) / (8589934592 * a)"
  using assms by (simp_all add: field_simps)

lemma scaled_argument:
  assumes "53 \<le> k"
  shows "100000 + 900000 * double_value (m, k) = real (100000 * 2 ^ k + m * 900000) / 2 ^ k"
    and "real n + 1 / 2 ^ 33 = real (n * 2 ^ k + 2 ^ (k - 33)) / 2 ^ k"
    and "real n + 1 - 1 / 2 ^ 33 = (real ((n + 1) * 2 ^ k) - real (2 ^ (k - 33))) / 2 ^ k"
    and "real n - 1 / 2 ^ 33 = (real (n * 2 ^ k) - real (2 ^ (k - 33))) / 2 ^ k"
    and "real n + 1 + 1 / 2 ^ 33 = real ((n + 1) * 2 ^ k + 2 ^ (k - 33)) / 2 ^ k"
proof -
  define a :: real where "a = 2 ^ (k - 33)"
  have a: "0 < a" by (simp add: a_def)
  have "(2::real) ^ k = 2 ^ (33 + (k - 33))" using assms by simp
  then have p: "(2::real) ^ k = 8589934592 * a" by (simp only: power_add a_def) simp
  have c: "real (2 ^ (k - 33)) = a" by (simp add: a_def)
  have n33: "(2::real) ^ 33 = 8589934592" by simp
  have "100000 + 900000 * (real m / (8589934592 * a)) =
      (100000 * (8589934592 * a) + real m * 900000) / (8589934592 * a)"
    by (rule scaled_aux(1) [OF a])
  also have "\<dots> = real (100000 * 2 ^ k + m * 900000) / 2 ^ k"
    by (simp add: p)
  finally show "100000 + 900000 * double_value (m, k) =
      real (100000 * 2 ^ k + m * 900000) / 2 ^ k"
    by (simp add: double_value_def p)
  have "real n + 1 / 8589934592 = (real n * (8589934592 * a) + a) / (8589934592 * a)"
    by (rule scaled_aux(2) [OF a])
  also have "\<dots> = real (n * 2 ^ k + 2 ^ (k - 33)) / 2 ^ k"
    by (simp add: p a_def algebra_simps)
  finally show "real n + 1 / 2 ^ 33 = real (n * 2 ^ k + 2 ^ (k - 33)) / 2 ^ k"
    by (simp only: n33)
  have "real n + 1 - 1 / 8589934592 =
      ((real n + 1) * (8589934592 * a) - a) / (8589934592 * a)"
    by (rule scaled_aux(3) [OF a])
  also have "\<dots> = (real ((n + 1) * 2 ^ k) - real (2 ^ (k - 33))) / 2 ^ k"
    by (simp add: p a_def algebra_simps)
  finally show "real n + 1 - 1 / 2 ^ 33 =
      (real ((n + 1) * 2 ^ k) - real (2 ^ (k - 33))) / 2 ^ k"
    by (simp only: n33)
  have "real n - 1 / 8589934592 = (real n * (8589934592 * a) - a) / (8589934592 * a)"
    by (rule scaled_aux(4) [OF a])
  also have "\<dots> = (real (n * 2 ^ k) - real (2 ^ (k - 33))) / 2 ^ k"
    by (simp add: p a_def algebra_simps)
  finally show "real n - 1 / 2 ^ 33 = (real (n * 2 ^ k) - real (2 ^ (k - 33))) / 2 ^ k"
    by (simp only: n33)
  have "real n + 1 + 1 / 8589934592 =
      ((real n + 1) * (8589934592 * a) + a) / (8589934592 * a)"
    by (rule scaled_aux(5) [OF a])
  also have "\<dots> = real ((n + 1) * 2 ^ k + 2 ^ (k - 33)) / 2 ^ k"
    by (simp add: p a_def algebra_simps)
  finally show "real n + 1 + 1 / 2 ^ 33 = real ((n + 1) * 2 ^ k + 2 ^ (k - 33)) / 2 ^ k"
    by (simp only: n33)
qed

lemma random_code_inner:
  assumes "unit_double d"
    and "real n + 1 / 2 ^ 33 \<le> 100000 + 900000 * double_value d"
    and "100000 + 900000 * double_value d < real n + 1 - 1 / 2 ^ 33"
  shows "random_code d = n"
proof -
  obtain m k where d: "d = (m, k)" by (cases d)
  from assms(1) have k: "53 \<le> k" by (simp add: unit_double_def d)
  have pos: "(0::real) < 2 ^ k" by simp
  from assms(2) have "real (n * 2 ^ k + 2 ^ (k - 33)) / 2 ^ k \<le>
      real (100000 * 2 ^ k + m * 900000) / 2 ^ k"
    unfolding d scaled_argument [OF k] .
  then have "real (n * 2 ^ k + 2 ^ (k - 33)) \<le> real (100000 * 2 ^ k + m * 900000)"
    using pos by (rule div_le_D)
  then have 1: "n * 2 ^ k + 2 ^ (k - 33) \<le> 100000 * 2 ^ k + m * 900000"
    by (simp only: of_nat_le_iff)
  from assms(3) have "real (100000 * 2 ^ k + m * 900000) / 2 ^ k <
      (real ((n + 1) * 2 ^ k) - real (2 ^ (k - 33))) / 2 ^ k"
    unfolding d scaled_argument [OF k] .
  then have "real (100000 * 2 ^ k + m * 900000) < real ((n + 1) * 2 ^ k) - real (2 ^ (k - 33))"
    using pos by (rule div_less_D)
  then have "real (100000 * 2 ^ k + m * 900000 + 2 ^ (k - 33)) < real ((n + 1) * 2 ^ k)"
    by (simp only: of_nat_add)
  then have 2: "100000 * 2 ^ k + m * 900000 + 2 ^ (k - 33) < (n + 1) * 2 ^ k"
    by (simp only: of_nat_less_iff)
  from random_code_inner_nat [OF assms(1) [unfolded d] 1 2] show ?thesis by (simp only: d)
qed

lemma random_code_outer:
  assumes "unit_double d" and "random_code d = n"
  shows "real n - 1 / 2 ^ 33 \<le> 100000 + 900000 * double_value d"
    and "100000 + 900000 * double_value d < real n + 1 + 1 / 2 ^ 33"
proof -
  obtain m k where d: "d = (m, k)" by (cases d)
  from assms(1) have k: "53 \<le> k" by (simp add: unit_double_def d)
  have pos: "(0::real) < 2 ^ k" by simp
  note o = random_code_outer_nat [OF assms(1) [unfolded d] assms(2) [unfolded d]]
  from o(1) have "real (n * 2 ^ k) \<le> real (100000 * 2 ^ k + m * 900000 + 2 ^ (k - 33))"
    by (simp only: of_nat_le_iff)
  then have "real (n * 2 ^ k) - real (2 ^ (k - 33)) \<le> real (100000 * 2 ^ k + m * 900000)"
    by (simp only: of_nat_add)
  then have "(real (n * 2 ^ k) - real (2 ^ (k - 33))) / 2 ^ k \<le>
      real (100000 * 2 ^ k + m * 900000) / 2 ^ k"
    using pos by (rule div_le_I)
  then show "real n - 1 / 2 ^ 33 \<le> 100000 + 900000 * double_value d"
    unfolding d scaled_argument [OF k] .
  from o(2) have "real (100000 * 2 ^ k + m * 900000) < real ((n + 1) * 2 ^ k + 2 ^ (k - 33))"
    by (simp only: of_nat_less_iff)
  then have "real (100000 * 2 ^ k + m * 900000) / 2 ^ k <
      real ((n + 1) * 2 ^ k + 2 ^ (k - 33)) / 2 ^ k"
    using pos by (rule div_less_I)
  then show "100000 + 900000 * double_value d < real n + 1 + 1 / 2 ^ 33"
    unfolding d scaled_argument [OF k] .
qed

lemma every_code_reachable:
  assumes "100000 \<le> n" and "n \<le> 999999"
  shows "\<exists>d. unit_double d \<and> random_code d = n"
proof -
  define N where "N = (n - 100000) * 9007199254740992 + 4503599627370496"
  define m where "m = N div 900000"
  have up: "m * 900000 \<le> N"
    unfolding m_def by (rule div_times_less_eq_dividend)
  have "N < (m + 1) * 900000"
    unfolding m_def by (rule less_succ_div_times) simp
  then have lo: "N < m * 900000 + 900000" by (simp add: algebra_simps)
  from assms have Nn: "N + 100000 * 9007199254740992 = n * 9007199254740992 + 4503599627370496"
    unfolding N_def by (simp add: algebra_simps)
  from assms have "N < 900000 * 9007199254740992"
    unfolding N_def by linarith
  with up have "m * 900000 < 9007199254740992 * 900000" by linarith
  then have "m < 9007199254740992" by simp
  then have m: "m < 2 ^ 53" by simp
  then have "bit_length m \<le> 53" by (rule bit_length_le)
  then have "round53 m = m" by (rule round53_exact)
  with m have u: "unit_double (m, 53)" by (simp add: unit_double_def)
  have p53: "(2::nat) ^ 53 = 9007199254740992" and p20: "(2::nat) ^ (53 - 33) = 1048576"
    by simp_all
  have "random_code (m, 53) = n"
  proof (rule random_code_inner_nat [OF u])
    show "n * 2 ^ 53 + 2 ^ (53 - 33) \<le> 100000 * 2 ^ 53 + m * 900000"
      unfolding p53 p20 using lo Nn by linarith
    show "100000 * 2 ^ 53 + m * 900000 + 2 ^ (53 - 33) < (n + 1) * 2 ^ 53"
      unfolding p53 p20 using up Nn by (simp add: algebra_simps)
  qed
  with u show ?thesis by blast
qed

lemma half_product: "round53 4053239664633446400000 = 4053239664633446400000"
  by (simp add: round53_def bit_length.simps Let_def)

lemma half_sum: "round53 4953959590107545600000 = 4953959590107545600000"
  by (simp add: round53_def bit_length.simps Let_def)

lemma half_code: "random_code (4503599627370496, 53) = 550000"
  by (simp add: random_code_eq half_product half_sum)

lemma seven_tenths_product: "round53 5674535530486824600000 = 5674535530486824960000"
  by (simp add: round53_def bit_length.simps Let_def)

lemma seven_tenths_sum: "round53 6575255455960924160000 = 6575255455960924160000"
  by (simp add: round53_def bit_length.simps Let_def)

lemma seven_tenths_code: "random_code (6305039478318694, 53) = 730000"
  by (simp add: random_code_eq seven_tenths_product seven_tenths_sum)

subsection \<open>The verification code as a string\<close>

lemma nat_to_string_length_le:
  "n < 10 ^ k \<Longrightarrow> 0 < k \<Longrightarrow> length (nat_to_string n) \<le> k"
proof (induction k arbitrary: n)
  case 0
  then show ?case by simp
next
  case (Suc k)
  show ?case
  proof (cases "n < 10")
    case True
    then show ?thesis by (subst nat_to_string.simps) simp
  next
    case False
    with Suc.prems have "n div 10 < 10 ^ k" "0 < k"
      by (auto simp add: less_mult_imp_div_less mult.commute intro: Suc_lessI gr0I)
    from Suc.IH [OF this] False show ?thesis
      by (subst nat_to_string.simps) simp
  qed
qed

lemma nat_to_string_length_ge:
  "10 ^ k \<le> n \<Longrightarrow> Suc k \<le> length (nat_to_string n)"
proof (induction k arbitrary: n)
  case 0
  then show ?case by (subst nat_to_string.simps) simp
next
  case (Suc k)
  have p: "10 * 10 ^ k \<le> n" using Suc.prems by simp
  have "(1::nat) \<le> 10 ^ k" by simp
  with p have big: "\<not> n < 10" by linarith
  from Suc.prems have "10 ^ k * 10 \<le> n" by (simp add: mult.commute)
  then have "10 ^ k \<le> n div 10" by (simp add: less_eq_div_iff_mult_less_eq)
  from Suc.IH [OF this] big show ?case
    by (subst nat_to_string.simps) simp
qed

lemma nat_to_string_digits: "set (nat_to_string n) \<subseteq> set ''0123456789''"
proof (induction n rule: nat_to_string.induct)
  case (1 n)
  have d: "\<And>i. i < 10 \<Longrightarrow> ''0123456789'' ! i \<in> set ''0123456789''"
    by (rule nth_mem) simp
  show ?case
  proof (cases "n < 10")
    case True
    with d [of n] show ?thesis by (subst nat_to_string.simps) simp
  next
    case False
    with 1 d [of "n mod 10"] show ?thesis by (subst nat_to_string.simps) simp
  qed
qed

lemma nat_to_string_nonempty: "nat_to_string n \<noteq> []"
  by (subst nat_to_string.simps) simp

lemma digit_nonzero: "0 < i \<Longrightarrow> i < 10 \<Longrightarrow> ''0123456789'' ! i \<noteq> CHR ''0''"
proof -
  assume "0 < i" "i < 10"
  then have "i \<in> {1, 2, 3, 4, 5, 6, 7, 8, 9}" by auto
  then show ?thesis by auto
qed

lemma nat_to_string_hd: "0 < n \<Longrightarrow> hd (nat_to_string n) \<noteq> CHR ''0''"
proof (induction n rule: nat_to_string.induct)
  case (1 n)
  show ?case
  proof (cases "n < 10")
    case True
    with 1(2) digit_nonzero [of n] show ?thesis by (subst nat_to_string.simps) simp
  next
    case False
    then have "0 < n div 10" by (simp add: div_greater_zero_iff)
    with 1(1) False nat_to_string_nonempty [of "n div 10"] show ?thesis
      by (subst nat_to_string.simps) simp
  qed
qed

lemma six_digits:
  assumes "100000 \<le> n" and "n \<le> 999999"
  shows "length (nat_to_string n) = 6"
proof -
  have "length (nat_to_string n) \<le> 6"
    using nat_to_string_length_le [of n 6] assms(2) by simp
  moreover have "6 \<le> length (nat_to_string n)"
    using nat_to_string_length_ge [of 5 n] assms(1) by simp
  ultimately show ?thesis by simp
qed

lemma verificationCode_range:
  assumes "unit_double (Math_random w)"
  shows "100000 \<le> random_code (Math_random w)" and "random_code (Math_random w) \<le> 999999"
    and "length (verificationCode w) = 6"
    and "set (verificationCode w) \<subseteq> set ''0123456789''"
    and "hd (verificationCode w) \<noteq> CHR ''0''"
proof -
  note r = random_code_range [OF assms]
  show "100000 \<le> random_code (Math_random w)" and "random_code (Math_random w) \<le> 999999"
    by (rule r)+
  show "length (verificationCode w) = 6"
    unfolding verificationCode_def by (rule six_digits [OF r])
  show "set (verificationCode w) \<subseteq> set ''0123456789''"
    unfolding verificationCode_def by (rule nat_to_string_digits)
  show "hd (verificationCode w) \<noteq> CHR ''0''"
    unfolding verificationCode_def using r(1) by (intro nat_to_string_hd) simp
qed

lemma nat_to_string_550000: "nat_to_string 550000 = ''550000''"
  by (simp add: nat_to_string.simps)

lemma nat_to_string_730000: "nat_to_string 730000 = ''730000''"
  by (simp add: nat_to_string.simps)

lemma verificationCode_half:
  "Math_random w = (4503599627370496, 53) \<Longrightarrow> verificationCode w = ''550000''"
  by (simp add: verificationCode_def half_code nat_to_string_550000)

lemma userName_ex: "userName validated_ex = ''A''"
  by code_simp

lemma userName_agent_ex: "userName (validated_ex\<lparr>role := ''agent''\<rparr>) = ''A''"
  by code_simp


subsection \<open>Completed registrations\<close>

lemma inserted_rows_append:
  "inserted_rows (xs @ ys) = inserted_rows xs @ inserted_rows ys"
  by (induction xs rule: inserted_rows.induct) simp_all

lemma requested_updates_append:
  "requested_updates (xs @ ys) = requested_updates xs @ requested_updates ys"
  by (induction xs rule: requested_updates.induct) simp_all

lemma POST_supabase_registers:
  assumes "registration_run w b v h newUser updateError html sent"
  shows "POST_supabase w =
    (Returned (created newUser),
     [Console Log ''Registration API called'',
      Console Log ''Environment variables check passed'',
      RequestJson,
      Console Log ''Request body received:'',
      SchemaParse b,
      Console Log ''Input validation passed'',
      Console Log ''Using Supabase client for database operations'',
      Console Log ''Checking if user exists...'',
      FindByEmail (email v),
      Console Log ''Email is available'',
      Console Log ''Hashing password...'',
      BcryptHash (password v) 12,
      Console Log ''Password hashed'',
      Console Log ''Creating user in database...'',
      UsersCreate (new_user_row w v h),
      Console Log ''User created successfully:'',
      SupabaseUpdate (verification_update w) (own_property newUser ''id'')] @
     (if truthy updateError then [Console Warn ''Could not store verification code:''] else []) @
     [GenerateVerificationEmail (verificationCode w) (userName v),
      SendEmail (verification_email v html)] @
     (if sent then [] else [Console Warn ''Could not send verification email'']) @
     (if role v = ''agent''
      then [Console Log ''Agent registered - should be added to verification queue by trigger'']
      else []))"
  using POST_supabase_returns [OF try_block_supabase_registers [OF assms]] by simp

lemma POST_drizzle_registers:
  assumes "drizzle_run w b v h newUser others"
  shows "POST_drizzle w =
    (Returned (created_drizzle newUser),
     [Console Log ''Registration API called'',
      Console Log ''Environment variables check passed'',
      RequestJson,
      Console Log ''Request body received:'',
      SchemaParse b,
      Console Log ''Input validation passed'',
      GetDb,
      Console Log ''Database connection established'',
      SelectLimit1,
      Console Log ''Database query test successful'',
      SelectWhereEmail (email v),
      Console Log ''Email is available'',
      BcryptHash (password v) 12,
      Console Log ''Password hashed'',
      InsertReturning (new_user_values v h),
      Console Log ''User created successfully:''])"
  using POST_drizzle_returns [OF try_block_drizzle_registers [OF assms]] by simp

lemma POST_supabase_inserts:
  assumes "registration_run w b v h newUser updateError html sent"
  shows "inserted_rows (snd (POST_supabase w)) = [new_user_row w v h]"
  by (simp add: POST_supabase_registers [OF assms] inserted_rows_append)

lemma POST_supabase_updates:
  assumes "registration_run w b v h newUser updateError html sent"
  shows "requested_updates (snd (POST_supabase w)) =
    [(verification_update w, own_property newUser ''id'')]"
  by (simp add: POST_supabase_registers [OF assms] requested_updates_append)

lemma POST_drizzle_inserts:
  assumes "drizzle_run w b v h newUser others"
  shows "inserted_rows (snd (POST_drizzle w)) = [new_user_values v h]"
  by (simp add: POST_drizzle_registers [OF assms])

lemma rest_without_key: "k \<notin> fst ` set (rest_without k ps)"
  by (auto simp add: rest_without_def)

lemma to_json_keys:
  assumes "to_json (Obj ps) = Obj qs"
  shows "fst ` set qs \<subseteq> fst ` set ps"
  using assms by force

lemma created_facts:
  "status (created newUser) = 201"
  "get_prop (body (created newUser)) ''success'' = Inr (Bool True)"
  "\<exists>user. get_prop (body (created newUser)) ''user'' = Inr (Obj user) \<and>
          ''password_hash'' \<notin> fst ` set user"
proof -
  show "status (created newUser) = 201"
    by (simp add: created_def NextResponse_json_def)
  show "get_prop (body (created newUser)) ''success'' = Inr (Bool True)"
    by (simp add: created_def NextResponse_json_def own_property_def)
  let ?user = "map (\<lambda>(k, x). (k, to_json x))
                (filter (\<lambda>(k, x). x \<noteq> Undefined) (rest_without ''password_hash'' newUser))"
  have "''password_hash'' \<notin> fst ` set ?user"
    using rest_without_key [of "''password_hash''" newUser] by force
  moreover have "get_prop (body (created newUser)) ''user'' = Inr (Obj ?user)"
    by (simp add: created_def NextResponse_json_def own_property_def)
  ultimately show "\<exists>user. get_prop (body (created newUser)) ''user'' = Inr (Obj user) \<and>
          ''password_hash'' \<notin> fst ` set user" by blast
qed

lemma created_drizzle_facts:
  "status (created_drizzle newUser) = 201"
  "get_prop (body (created_drizzle newUser)) ''success'' = Inr (Bool True)"
  "\<exists>user. get_prop (body (created_drizzle newUser)) ''user'' = Inr (Obj user) \<and>
          ''passwordHash'' \<notin> fst ` set user"
proof -
  show "status (created_drizzle newUser) = 201"
    by (simp add: created_drizzle_def NextResponse_json_def)
  show "get_prop (body (created_drizzle newUser)) ''success'' = Inr (Bool True)"
    by (simp add: created_drizzle_def NextResponse_json_def own_property_def)
  let ?user = "map (\<lambda>(k, x). (k, to_json x))
                (filter (\<lambda>(k, x). x \<noteq> Undefined) (rest_without ''passwordHash'' newUser))"
  have "''passwordHash'' \<notin> fst ` set ?user"
    using rest_without_key [of "''passwordHash''" newUser] by force
  moreover have "get_prop (body (created_drizzle newUser)) ''user'' = Inr (Obj ?user)"
    by (simp add: created_drizzle_def NextResponse_json_def own_property_def)
  ultimately show "\<exists>user. get_prop (body (created_drizzle newUser)) ''user'' = Inr (Obj user) \<and>
          ''passwordHash'' \<notin> fst ` set user" by blast
qed

lemma new_user_row_props:
  "get_prop (new_user_row w v h) ''password_hash'' = Inr (Str h)"
  "get_prop (new_user_row w v h) ''verified_status'' = Inr (Bool (role v \<noteq> ''agent''))"
  "get_prop (new_user_row w v h) ''email_verified'' = Inr (Bool False)"
  by (simp_all add: new_user_row_def own_property_def)

lemma new_user_values_props:
  "get_prop (new_user_values v h) ''passwordHash'' = Inr (Str h)"
  "get_prop (new_user_values v h) ''verifiedStatus'' = Inr (Bool (role v \<noteq> ''agent''))"
  by (simp_all add: new_user_values_def own_property_def)

lemma registration_run_ex:
  "registration_run world_ex body_ex validated_ex hash_ex
     (stored_row (new_user_row world_ex validated_ex hash_ex)) Null
     (''<p>A: 550000</p>'') True"
  by (simp add: registration_run_def world_ex_def env_missing_def saltRounds_def
      verificationCode_half userName_ex)

subsection \<open>The example runs\<close>

lemma toISOString_ex: "toISOString 1700000000000 = ''2023-11-14T22:13:20.000Z''"
  by code_simp

lemma toISOString_expiry_ex: "toISOString 1700000900250 = ''2023-11-14T22:28:20.250Z''"
  by code_simp

lemma drizzle_run_ex:
  "drizzle_run world_ex body_ex validated_ex hash_ex
     (stored_row (new_user_values validated_ex hash_ex)) []"
  by (simp add: drizzle_run_def world_ex_def env_missing_def saltRounds_def)

lemma created_user_ex:
  "get_prop (body (created (stored_row (new_user_row world_ex validated_ex hash_ex)))) ''user'' =
     Inr (Obj [(''id'', Str ''u-1''),
               (''email'', Str ''a@b.com''),
               (''first_name'', Str ''A''),
               (''last_name'', Null),
               (''phone'', Null),
               (''role'', Str ''buyer''),
               (''school_id'', Null),
               (''business_reg_number'', Null),
               (''address'', Null),
               (''profile_image_url'', Null),
               (''terms_accepted'', Bool True),
               (''terms_accepted_at'', Str ''2023-11-14T22:13:20.000Z''),
               (''verified_status'', Bool True),
               (''email_verified'', Bool False)])"
proof -
  have "new_Date world_ex = 1700000000000" by (simp add: world_ex_def)
  then show ?thesis
    by (simp add: created_def NextResponse_json_def own_property_def stored_row_def
        new_user_row_def rest_without_def validated_ex_def or_null_def toISOString_ex)
qed

lemma created_drizzle_user_ex:
  "get_prop (body (created_drizzle (stored_row (new_user_values validated_ex hash_ex)))) ''user'' =
     Inr (Obj [(''id'', Str ''u-1''),
               (''email'', Str ''a@b.com''),
               (''firstName'', Str ''A''),
               (''role'', Str ''buyer''),
               (''verifiedStatus'', Bool True)])"
  by (simp add: created_drizzle_def NextResponse_json_def own_property_def stored_row_def
      new_user_values_def rest_without_def validated_ex_def optional_def)

lemma registration_run_agent_ex:
  "registration_run world_agent_ex body_ex (validated_ex\<lparr>role := ''agent''\<rparr>) hash_ex
     (stored_row (new_user_row world_agent_ex (validated_ex\<lparr>role := ''agent''\<rparr>) hash_ex)) Null
     (''<p>A: 550000</p>'') True"
  by (simp add: registration_run_def world_agent_ex_def world_ex_def env_missing_def
      saltRounds_def verificationCode_half userName_ex userName_agent_ex)

lemma registration_run_degraded_ex:
  "registration_run world_degraded_ex body_ex validated_ex hash_ex
     (stored_row (new_user_row world_degraded_ex validated_ex hash_ex))
     (Obj [(''message'', Str ''permission denied'')]) (''<p>A: 550000</p>'') False"
  by (simp add: registration_run_def world_degraded_ex_def world_ex_def env_missing_def
      saltRounds_def verificationCode_half userName_ex userName_agent_ex)

subsection \<open>Claims about completed registrations\<close>

text \<open>
  C1. In a run where the payload validates, the lookup finds no user and the
  collaborators resolve, the handler returns 201 with \<^verbatim>\<open>success: true\<close>. The one row
  it hands to the store has as its password hash the string bcrypt resolved with for
  the plaintext and 12 rounds (so it differs from the plaintext whenever bcrypt's output
  does), and the \<^verbatim>\<open>user\<close> object of the response has no password-hash member:
  \<^verbatim>\<open>password_hash\<close> in \<^verbatim>\<open>part_000\<close>, \<^verbatim>\<open>passwordHash\<close> in \<^verbatim>\<open>route.ts\<close>.
\<close>

theorem fresh_registration_created:
  "(registration_run w b v h newUser updateError html sent \<longrightarrow>
      fst (POST_supabase w) = Returned (created newUser) \<and>
      status (created newUser) = 201 \<and>
      get_prop (body (created newUser)) ''success'' = Inr (Bool True) \<and>
      inserted_rows (snd (POST_supabase w)) = [new_user_row w v h] \<and>
      get_prop (new_user_row w v h) ''password_hash'' = Inr (Str h) \<and>
      (h \<noteq> password v \<longrightarrow>
         get_prop (new_user_row w v h) ''password_hash'' \<noteq> Inr (Str (password v))) \<and>
      (\<exists>user. get_prop (body (created newUser)) ''user'' = Inr (Obj user) \<and>
              ''password_hash'' \<notin> fst ` set user)) \<and>
   (drizzle_run w b v h newUser others \<longrightarrow>
      fst (POST_drizzle w) = Returned (created_drizzle newUser) \<and>
      status (created_drizzle newUser) = 201 \<and>
      get_prop (body (created_drizzle newUser)) ''success'' = Inr (Bool True) \<and>
      inserted_rows (snd (POST_drizzle w)) = [new_user_values v h] \<and>
      get_prop (new_user_values v h) ''passwordHash'' = Inr (Str h) \<and>
      (h \<noteq> password v \<longrightarrow>
         get_prop (new_user_values v h) ''passwordHash'' \<noteq> Inr (Str (password v))) \<and>
      (\<exists>user. get_prop (body (created_drizzle newUser)) ''user'' = Inr (Obj user) \<and>
              ''passwordHash'' \<notin> fst ` set user))"
proof (intro conjI impI)
  assume run: "registration_run w b v h newUser updateError html sent"
  show "fst (POST_supabase w) = Returned (created newUser)"
    by (simp add: POST_supabase_registers [OF run])
  show "inserted_rows (snd (POST_supabase w)) = [new_user_row w v h]"
    by (rule POST_supabase_inserts [OF run])
next
  assume run: "drizzle_run w b v h newUser others"
  show "fst (POST_drizzle w) = Returned (created_drizzle newUser)"
    by (simp add: POST_drizzle_registers [OF run])
  show "inserted_rows (snd (POST_drizzle w)) = [new_user_values v h]"
    by (rule POST_drizzle_inserts [OF run])
next
  show "status (created newUser) = 201" by (rule created_facts)
  show "get_prop (body (created newUser)) ''success'' = Inr (Bool True)" by (rule created_facts)
  show "\<exists>user. get_prop (body (created newUser)) ''user'' = Inr (Obj user) \<and>
              ''password_hash'' \<notin> fst ` set user" by (rule created_facts)
  show "status (created_drizzle newUser) = 201" by (rule created_drizzle_facts)
  show "get_prop (body (created_drizzle newUser)) ''success'' = Inr (Bool True)"
    by (rule created_drizzle_facts)
  show "\<exists>user. get_prop (body (created_drizzle newUser)) ''user'' = Inr (Obj user) \<and>
              ''passwordHash'' \<notin> fst ` set user" by (rule created_drizzle_facts)
  show "get_prop (new_user_row w v h) ''password_hash'' = Inr (Str h)"
    by (rule new_user_row_props)
  show "get_prop (new_user_values v h) ''passwordHash'' = Inr (Str h)"
    by (rule new_user_values_props)
  show "get_prop (new_user_row w v h) ''password_hash'' \<noteq> Inr (Str (password v))"
    if "h \<noteq> password v" using that by (simp add: new_user_row_props)
  show "get_prop (new_user_values v h) ''passwordHash'' \<noteq> Inr (Str (password v))"
    if "h \<noteq> password v" using that by (simp add: new_user_values_props)
qed

theorem fresh_registration_created_witness:
  "registration_run world_ex body_ex validated_ex hash_ex
     (stored_row (new_user_row world_ex validated_ex hash_ex)) Null (''<p>A: 550000</p>'') True \<and>
   hash_ex \<noteq> password validated_ex \<and>
   fst (POST_supabase world_ex) =
     Returned (created (stored_row (new_user_row world_ex validated_ex hash_ex))) \<and>
   status (created (stored_row (new_user_row world_ex validated_ex hash_ex))) = 201 \<and>
   get_prop (new_user_row world_ex validated_ex hash_ex) ''password_hash'' \<noteq>
     Inr (Str (password validated_ex)) \<and>
   get_prop (body (created (stored_row (new_user_row world_ex validated_ex hash_ex)))) ''user'' =
     Inr (Obj [(''id'', Str ''u-1''),
               (''email'', Str ''a@b.com''),
               (''first_name'', Str ''A''),
               (''last_name'', Null),
               (''phone'', Null),
               (''role'', Str ''buyer''),
               (''school_id'', Null),
               (''business_reg_number'', Null),
               (''address'', Null),
               (''profile_image_url'', Null),
               (''terms_accepted'', Bool True),
               (''terms_accepted_at'', Str ''2023-11-14T22:13:20.000Z''),
               (''verified_status'', Bool True),
               (''email_verified'', Bool False)]) \<and>
   drizzle_run world_ex body_ex validated_ex hash_ex
     (stored_row (new_user_values validated_ex hash_ex)) [] \<and>
   fst (POST_drizzle world_ex) =
     Returned (created_drizzle (stored_row (new_user_values validated_ex hash_ex))) \<and>
   get_prop (body (created_drizzle (stored_row (new_user_values validated_ex hash_ex)))) ''user'' =
     Inr (Obj [(''id'', Str ''u-1''),
               (''email'', Str ''a@b.com''),
               (''firstName'', Str ''A''),
               (''role'', Str ''buyer''),
               (''verifiedStatus'', Bool True)])"
proof -
  have h: "hash_ex \<noteq> password validated_ex"
    by (simp add: hash_ex_def validated_ex_def)
  from fresh_registration_created
    [of world_ex body_ex validated_ex hash_ex
        "stored_row (new_user_row world_ex validated_ex hash_ex)" Null "''<p>A: 550000</p>''" True]
    registration_run_ex h
  have s: "fst (POST_supabase world_ex) =
       Returned (created (stored_row (new_user_row world_ex validated_ex hash_ex))) \<and>
     status (created (stored_row (new_user_row world_ex validated_ex hash_ex))) = 201 \<and>
     get_prop (new_user_row world_ex validated_ex hash_ex) ''password_hash'' \<noteq>
       Inr (Str (password validated_ex))"
    by blast
  from fresh_registration_created
    [of world_ex body_ex validated_ex hash_ex
        "stored_row (new_user_values validated_ex hash_ex)" _ _ _ "[]"]
    drizzle_run_ex
  have d: "fst (POST_drizzle world_ex) =
     Returned (created_drizzle (stored_row (new_user_values validated_ex hash_ex)))"
    by blast
  from s d h registration_run_ex drizzle_run_ex created_user_ex created_drizzle_user_ex
  show ?thesis by blast
qed

text \<open>
  C4. Whenever a handler returns 201, it has handed exactly one row to the store, and in
  that row \<^verbatim>\<open>verified_status\<close> is \<^verbatim>\<open>false\<close> exactly when the validated role is
  \<^verbatim>\<open>agent\<close>; in \<^verbatim>\<open>part_000\<close> the row also has \<^verbatim>\<open>email_verified: false\<close>, whatever
  the role. (\<^verbatim>\<open>route.ts\<close> sets \<^verbatim>\<open>verifiedStatus\<close> the same way and leaves the e-mail
  flag to the table's default.)
\<close>

theorem verified_status_by_role:
  "(fst (POST_supabase w) = Returned r \<and> status r = 201 \<longrightarrow>
      (\<exists>b v row. request_json w = Inr b \<and> registerUserSchema_parse w b = Inr v \<and>
         inserted_rows (snd (POST_supabase w)) = [row] \<and>
         get_prop row ''verified_status'' = Inr (Bool (role v \<noteq> ''agent'')) \<and>
         get_prop row ''email_verified'' = Inr (Bool False))) \<and>
   (fst (POST_drizzle w) = Returned r \<and> status r = 201 \<longrightarrow>
      (\<exists>b v row. request_json w = Inr b \<and> registerUserSchema_parse w b = Inr v \<and>
         inserted_rows (snd (POST_drizzle w)) = [row] \<and>
         get_prop row ''verifiedStatus'' = Inr (Bool (role v \<noteq> ''agent''))))"
proof (intro conjI impI)
  assume "fst (POST_supabase w) = Returned r \<and> status r = 201"
  then obtain b v h newUser updateError html sent
    where run: "registration_run w b v h newUser updateError html sent"
    using POST_supabase_201 [of w r] by blast
  then have "request_json w = Inr b" "registerUserSchema_parse w b = Inr v"
    by (simp_all add: registration_run_def)
  with POST_supabase_inserts [OF run] new_user_row_props(2,3) [of w v h]
  show "\<exists>b v row. request_json w = Inr b \<and> registerUserSchema_parse w b = Inr v \<and>
         inserted_rows (snd (POST_supabase w)) = [row] \<and>
         get_prop row ''verified_status'' = Inr (Bool (role v \<noteq> ''agent'')) \<and>
         get_prop row ''email_verified'' = Inr (Bool False)"
    by blast
next
  assume "fst (POST_drizzle w) = Returned r \<and> status r = 201"
  then obtain b v h newUser others
    where run: "drizzle_run w b v h newUser others"
    using POST_drizzle_201 [of w r] by blast
  then have "request_json w = Inr b" "registerUserSchema_parse w b = Inr v"
    by (simp_all add: drizzle_run_def)
  with POST_drizzle_inserts [OF run] new_user_values_props(2) [of v h]
  show "\<exists>b v row. request_json w = Inr b \<and> registerUserSchema_parse w b = Inr v \<and>
         inserted_rows (snd (POST_drizzle w)) = [row] \<and>
         get_prop row ''verifiedStatus'' = Inr (Bool (role v \<noteq> ''agent''))"
    by blast
qed


theorem verified_status_by_role_witness:
  "fst (POST_supabase world_agent_ex) =
     Returned (created (stored_row
       (new_user_row world_agent_ex (validated_ex\<lparr>role := ''agent''\<rparr>) hash_ex))) \<and>
   status (created (stored_row
       (new_user_row world_agent_ex (validated_ex\<lparr>role := ''agent''\<rparr>) hash_ex))) = 201 \<and>
   (\<exists>row. inserted_rows (snd (POST_supabase world_agent_ex)) = [row] \<and>
      get_prop row ''verified_status'' = Inr (Bool False) \<and>
      get_prop row ''email_verified'' = Inr (Bool False)) \<and>
   fst (POST_drizzle world_ex) =
     Returned (created_drizzle (stored_row (new_user_values validated_ex hash_ex))) \<and>
   status (created_drizzle (stored_row (new_user_values validated_ex hash_ex))) = 201 \<and>
   (\<exists>row. inserted_rows (snd (POST_drizzle world_ex)) = [row] \<and>
      get_prop row ''verifiedStatus'' = Inr (Bool True))"
proof -
  let ?agent = "validated_ex\<lparr>role := ''agent''\<rparr>"
  let ?r = "created (stored_row (new_user_row world_agent_ex ?agent hash_ex))"
  let ?d = "created_drizzle (stored_row (new_user_values validated_ex hash_ex))"
  have s: "fst (POST_supabase world_agent_ex) = Returned ?r"
    by (simp add: POST_supabase_registers [OF registration_run_agent_ex])
  have s201: "status ?r = 201" by (rule created_facts)
  have p: "registerUserSchema_parse world_agent_ex body_ex = Inr ?agent"
    by (simp add: world_agent_ex_def)
  have d: "fst (POST_drizzle world_ex) = Returned ?d"
    by (simp add: POST_drizzle_registers [OF drizzle_run_ex])
  have d201: "status ?d = 201" by (rule created_drizzle_facts)
  have q: "registerUserSchema_parse world_ex body_ex = Inr validated_ex"
    by (simp add: world_ex_def)
  from verified_status_by_role [of world_agent_ex ?r] s s201 obtain b v row where
    "request_json world_agent_ex = Inr b" "registerUserSchema_parse world_agent_ex b = Inr v"
    "inserted_rows (snd (POST_supabase world_agent_ex)) = [row]"
    "get_prop row ''verified_status'' = Inr (Bool (role v \<noteq> ''agent''))"
    "get_prop row ''email_verified'' = Inr (Bool False)"
    by blast
  moreover from this(1,2) p have "role v = ''agent''"
    by (auto simp add: world_agent_ex_def world_ex_def)
  ultimately have a: "\<exists>row. inserted_rows (snd (POST_supabase world_agent_ex)) = [row] \<and>
      get_prop row ''verified_status'' = Inr (Bool False) \<and>
      get_prop row ''email_verified'' = Inr (Bool False)"
    by auto
  from verified_status_by_role [of world_ex ?d] d d201 obtain b v row where
    "request_json world_ex = Inr b" "registerUserSchema_parse world_ex b = Inr v"
    "inserted_rows (snd (POST_drizzle world_ex)) = [row]"
    "get_prop row ''verifiedStatus'' = Inr (Bool (role v \<noteq> ''agent''))"
    by blast
  moreover from this(1,2) q have "role v = ''buyer''"
    by (auto simp add: world_ex_def validated_ex_def split: if_splits)
  ultimately have b: "\<exists>row. inserted_rows (snd (POST_drizzle world_ex)) = [row] \<and>
      get_prop row ''verifiedStatus'' = Inr (Bool True)"
    by auto
  from s s201 a d d201 b show ?thesis by blast
qed

text \<open>
  C6, as the code has it. Lines 85 to 103 have no \<^verbatim>\<open>try\<close> of their own, so a side
  effect that throws after the insert is caught by the handler's catch block: here the
  row has been inserted, \<^verbatim>\<open>sendEmail\<close> rejects, and the handler answers 500.
\<close>

theorem thrown_mail_failure_aborts:
  "inserted_rows (snd (POST_supabase world_mail_throws_ex)) =
     [new_user_row world_mail_throws_ex validated_ex hash_ex] \<and>
   fst (POST_supabase world_mail_throws_ex) =
     Returned (failure 500 ''Internal server error'' [])"
proof -
  let ?w = world_mail_throws_ex
  let ?row = "new_user_row ?w validated_ex hash_ex"
  have code: "verificationCode ?w = ''550000''"
    by (rule verificationCode_half) (simp add: world_mail_throws_ex_def world_ex_def)
  have 1: "try_block_supabase ?w =
    (fst (check_existing ?w validated_ex),
     [Console Log ''Environment variables check passed'',
      RequestJson,
      Console Log ''Request body received:'',
      SchemaParse body_ex,
      Console Log ''Input validation passed''] @ snd (check_existing ?w validated_ex))"
    by (rule try_block_supabase_validated)
       (simp_all add: world_mail_throws_ex_def world_ex_def env_missing_def)
  have 2: "check_existing ?w validated_ex =
    (fst (create_user ?w validated_ex),
     [Console Log ''Using Supabase client for database operations'',
      Console Log ''Checking if user exists...'',
      FindByEmail (email validated_ex),
      Console Log ''Email is available''] @ snd (create_user ?w validated_ex))"
    by (rule check_existing_fresh) (simp add: world_mail_throws_ex_def world_ex_def)
  have 3: "create_user ?w validated_ex =
    (fst (send_verification ?w validated_ex (stored_row ?row)),
     [Console Log ''Hashing password...'',
      BcryptHash (password validated_ex) saltRounds,
      Console Log ''Password hashed'',
      Console Log ''Creating user in database...'',
      UsersCreate ?row,
      Console Log ''User created successfully:''] @
     snd (send_verification ?w validated_ex (stored_row ?row)))"
    by (rule create_user_resolved) (simp_all add: world_mail_throws_ex_def world_ex_def)
  have su: "supabase_update ?w = (\<lambda>u i. Inr Null)"
    by (simp add: world_mail_throws_ex_def world_ex_def)
  have ge: "generateVerificationEmail ?w = (\<lambda>c n. Inr (''<p>'' @ n @ '': '' @ c @ ''</p>''))"
    by (simp add: world_mail_throws_ex_def world_ex_def)
  have se: "sendEmail ?w = (\<lambda>m. Inl (new_Error ''SMTP timeout''))"
    by (simp add: world_mail_throws_ex_def)
  have 4: "send_verification ?w validated_ex (stored_row ?row) =
    (Inl (new_Error ''SMTP timeout''),
     [SupabaseUpdate (verification_update ?w) (own_property (stored_row ?row) ''id''),
      GenerateVerificationEmail ''550000'' ''A'',
      SendEmail (verification_email validated_ex ''<p>A: 550000</p>'')])"
    by (simp add: send_verification_def comp_simps code userName_ex su ge se)
  have 5: "catch_block ?w (new_Error ''SMTP timeout'') =
    (Inr (failure 500 ''Internal server error'' []),
     [Console Error ''Registration error details:''])"
    unfolding new_Error_def
    by (subst catch_block_Error_object [where m = "''SMTP timeout''"])
       (simp_all add: own_property_def world_mail_throws_ex_def world_ex_def)
  show ?thesis
    by (simp add: POST_supabase_def try_catch_def 1 2 3 4 5)
qed

text \<open>
  C6, amended. Once the insert has resolved and the update, the e-mail template and
  \<^verbatim>\<open>sendEmail\<close> each return a result, the handler returns 201 with \<^verbatim>\<open>success: true\<close>
  whatever the update reports (\<open>updateError\<close>) and whatever the mailer reports
  (\<open>sent\<close>): the response does not depend on either, and each reported failure adds one
  \<^verbatim>\<open>console.warn\<close> line to the run and nothing else.
\<close>

theorem side_effect_failures_do_not_abort:
  assumes "registration_run w b v h newUser updateError html sent"
  shows "POST_supabase w =
    (Returned (created newUser),
     [Console Log ''Registration API called'',
      Console Log ''Environment variables check passed'',
      RequestJson,
      Console Log ''Request body received:'',
      SchemaParse b,
      Console Log ''Input validation passed'',
      Console Log ''Using Supabase client for database operations'',
      Console Log ''Checking if user exists...'',
      FindByEmail (email v),
      Console Log ''Email is available'',
      Console Log ''Hashing password...'',
      BcryptHash (password v) 12,
      Console Log ''Password hashed'',
      Console Log ''Creating user in database...'',
      UsersCreate (new_user_row w v h),
      Console Log ''User created successfully:'',
      SupabaseUpdate (verification_update w) (own_property newUser ''id'')] @
     (if truthy updateError then [Console Warn ''Could not store verification code:''] else []) @
     [GenerateVerificationEmail (verificationCode w) (userName v),
      SendEmail (verification_email v html)] @
     (if sent then [] else [Console Warn ''Could not send verification email'']) @
     (if role v = ''agent''
      then [Console Log ''Agent registered - should be added to verification queue by trigger'']
      else [])) \<and>
    status (created newUser) = 201 \<and>
    get_prop (body (created newUser)) ''success'' = Inr (Bool True)"
  using POST_supabase_registers [OF assms] created_facts(1,2) [of newUser] by simp

theorem side_effect_failures_do_not_abort_witness:
  "registration_run world_degraded_ex body_ex validated_ex hash_ex
     (stored_row (new_user_row world_degraded_ex validated_ex hash_ex))
     (Obj [(''message'', Str ''permission denied'')]) (''<p>A: 550000</p>'') False \<and>
   truthy (Obj [(''message'', Str ''permission denied'')]) \<and>
   fst (POST_supabase world_degraded_ex) =
     Returned (created (stored_row (new_user_row world_degraded_ex validated_ex hash_ex))) \<and>
   status (created (stored_row (new_user_row world_degraded_ex validated_ex hash_ex))) = 201 \<and>
   filter (\<lambda>ev. ev = Console Warn ''Could not store verification code:'' \<or>
                 ev = Console Warn ''Could not send verification email'')
     (snd (POST_supabase world_degraded_ex)) =
     [Console Warn ''Could not store verification code:'',
      Console Warn ''Could not send verification email'']"
  using side_effect_failures_do_not_abort [OF registration_run_degraded_ex]
    registration_run_degraded_ex
  by (simp add: validated_ex_def)

text \<open>
  C5, as the code has it. The code is \<^verbatim>\<open>100000 + Math.random() * 900000\<close> rounded
  down, so it never starts with a zero: no double in the unit interval gives
  \<^verbatim>\<open>000000\<close>. Nor do the random values split exactly at the multiples of 1/900000:
  the double nearest to 0.7 lies below 0.7 and still gives \<^verbatim>\<open>730000\<close>, because the
  product is rounded up to 630000.
\<close>

theorem no_leading_zero_code:
  "\<not> (\<exists>d. unit_double d \<and> verificationCode (world_ex\<lparr>Math_random := d\<rparr>) = ''000000'') \<and>
   unit_double (6305039478318694, 53) \<and>
   100000 + 900000 * double_value (6305039478318694, 53) < 730000 \<and>
   verificationCode (world_ex\<lparr>Math_random := (6305039478318694, 53)\<rparr>) = ''730000''"
proof (intro conjI notI)
  assume "\<exists>d. unit_double d \<and> verificationCode (world_ex\<lparr>Math_random := d\<rparr>) = ''000000''"
  then obtain d where d: "unit_double d"
    and c: "verificationCode (world_ex\<lparr>Math_random := d\<rparr>) = ''000000''" by blast
  from d have "unit_double (Math_random (world_ex\<lparr>Math_random := d\<rparr>))" by simp
  from verificationCode_range(5) [OF this] c show False by simp
next
  show "unit_double (6305039478318694, 53)"
    by (simp add: unit_double_def round53_def bit_length.simps)
  show "100000 + 900000 * double_value (6305039478318694, 53) < 730000"
    by (simp add: double_value_def)
  show "verificationCode (world_ex\<lparr>Math_random := (6305039478318694, 53)\<rparr>) = ''730000''"
    by (simp add: verificationCode_def seven_tenths_code nat_to_string_730000)
qed

text \<open>
  C5, amended. For a random value that is a double in the unit interval, the
  verification code is the decimal string of an integer from 100000 to 999999: six
  characters, all digits, the first not a zero; every integer in that range is the code
  for some such random value. The draw is uniform over that range up to the rounding of
  double arithmetic: a random value \<open>r\<close> gives the code \<open>n\<close> whenever
  \<open>100000 + 900000 r\<close> lies between \<open>n + 2\<^sup>-\<^sup>3\<^sup>3\<close> and \<open>n + 1 - 2\<^sup>-\<^sup>3\<^sup>3\<close>, and only when
  it lies between \<open>n - 2\<^sup>-\<^sup>3\<^sup>3\<close> and \<open>n + 1 + 2\<^sup>-\<^sup>3\<^sup>3\<close>, so the random values of each
  code fill an interval of length 1/900000 up to a relative \<open>2\<^sup>-\<^sup>3\<^sup>2\<close>. The expiry the
  handler sends with the code is the ISO string of the clock reading plus 900000
  milliseconds, that is 15 minutes, and a run that returns 201 has asked the store for
  exactly this one update.
\<close>

theorem verification_code_six_digits:
  assumes "unit_double (Math_random w)"
  shows "verificationCode w = nat_to_string (random_code (Math_random w)) \<and>
    100000 \<le> random_code (Math_random w) \<and> random_code (Math_random w) \<le> 999999 \<and>
    length (verificationCode w) = 6 \<and>
    set (verificationCode w) \<subseteq> set ''0123456789'' \<and>
    hd (verificationCode w) \<noteq> CHR ''0'' \<and>
    (\<forall>n. 100000 \<le> n \<and> n \<le> 999999 \<longrightarrow>
       (\<exists>d. unit_double d \<and> random_code d = n \<and>
            verificationCode (w\<lparr>Math_random := d\<rparr>) = nat_to_string n)) \<and>
    (\<forall>n. real n + 1 / 2 ^ 33 \<le> 100000 + 900000 * double_value (Math_random w) \<and>
         100000 + 900000 * double_value (Math_random w) < real n + 1 - 1 / 2 ^ 33 \<longrightarrow>
         random_code (Math_random w) = n) \<and>
    (\<forall>n. random_code (Math_random w) = n \<longrightarrow>
         real n - 1 / 2 ^ 33 \<le> 100000 + 900000 * double_value (Math_random w) \<and>
         100000 + 900000 * double_value (Math_random w) < real n + 1 + 1 / 2 ^ 33) \<and>
    verification_update w =
      Obj [(''verification_code'', Str (verificationCode w)),
           (''verification_code_expires'', Str (toISOString (Date_now w + 900000)))] \<and>
    (\<forall>r. fst (POST_supabase w) = Returned r \<and> status r = 201 \<longrightarrow>
       (\<exists>i. requested_updates (snd (POST_supabase w)) = [(verification_update w, i)]))"
proof -
  note range = verificationCode_range [OF assms]
  have 0: "verificationCode w = nat_to_string (random_code (Math_random w))"
    by (rule verificationCode_def)
  have 5: "\<forall>n. 100000 \<le> n \<and> n \<le> 999999 \<longrightarrow>
       (\<exists>d. unit_double d \<and> random_code d = n \<and>
            verificationCode (w\<lparr>Math_random := d\<rparr>) = nat_to_string n)"
  proof (intro allI impI)
    fix n :: nat assume "100000 \<le> n \<and> n \<le> 999999"
    then obtain d where "unit_double d" "random_code d = n"
      using every_code_reachable [of n] by blast
    moreover from this have "verificationCode (w\<lparr>Math_random := d\<rparr>) = nat_to_string n"
      by (simp add: verificationCode_def)
    ultimately show "\<exists>d. unit_double d \<and> random_code d = n \<and>
            verificationCode (w\<lparr>Math_random := d\<rparr>) = nat_to_string n" by blast
  qed
  have 6: "\<forall>n. real n + 1 / 2 ^ 33 \<le> 100000 + 900000 * double_value (Math_random w) \<and>
         100000 + 900000 * double_value (Math_random w) < real n + 1 - 1 / 2 ^ 33 \<longrightarrow>
         random_code (Math_random w) = n"
    using random_code_inner [OF assms] by blast
  have 7: "\<forall>n. random_code (Math_random w) = n \<longrightarrow>
         real n - 1 / 2 ^ 33 \<le> 100000 + 900000 * double_value (Math_random w) \<and>
         100000 + 900000 * double_value (Math_random w) < real n + 1 + 1 / 2 ^ 33"
    using random_code_outer [OF assms] by blast
  have 8: "verification_update w =
      Obj [(''verification_code'', Str (verificationCode w)),
           (''verification_code_expires'', Str (toISOString (Date_now w + 900000)))]"
    by (simp add: verification_update_def expiresAt_def)
  have 9: "\<forall>r. fst (POST_supabase w) = Returned r \<and> status r = 201 \<longrightarrow>
       (\<exists>i. requested_updates (snd (POST_supabase w)) = [(verification_update w, i)])"
  proof (intro allI impI)
    fix r assume "fst (POST_supabase w) = Returned r \<and> status r = 201"
    then obtain b v h newUser updateError html sent
      where run: "registration_run w b v h newUser updateError html sent"
      using POST_supabase_201 [of w r] by blast
    from POST_supabase_updates [OF run]
    show "\<exists>i. requested_updates (snd (POST_supabase w)) = [(verification_update w, i)]"
      by blast
  qed
  from 0 range 5 6 7 8 9 show ?thesis by blast
qed

theorem verification_code_six_digits_witness:
  "unit_double (Math_random world_ex) \<and>
   double_value (Math_random world_ex) = 1 / 2 \<and>
   verificationCode world_ex = ''550000'' \<and>
   length (verificationCode world_ex) = 6 \<and>
   random_code (Math_random world_ex) = 550000 \<and>
   real 550000 - 1 / 2 ^ 33 \<le> 100000 + 900000 * double_value (Math_random world_ex) \<and>
   100000 + 900000 * double_value (Math_random world_ex) < real 550000 + 1 + 1 / 2 ^ 33 \<and>
   unit_double (4503603922337792, 53) \<and>
   real 550000 + 1 / 2 ^ 33 \<le> 100000 + 900000 * double_value (4503603922337792, 53) \<and>
   100000 + 900000 * double_value (4503603922337792, 53) < real 550000 + 1 - 1 / 2 ^ 33 \<and>
   random_code (4503603922337792, 53) = 550000 \<and>
   (\<exists>d. unit_double d \<and> random_code d = 123456 \<and>
        verificationCode (world_ex\<lparr>Math_random := d\<rparr>) = nat_to_string 123456) \<and>
   verification_update world_ex =
     Obj [(''verification_code'', Str ''550000''),
          (''verification_code_expires'', Str ''2023-11-14T22:28:20.250Z'')] \<and>
   fst (POST_supabase world_ex) =
     Returned (created (stored_row (new_user_row world_ex validated_ex hash_ex))) \<and>
   status (created (stored_row (new_user_row world_ex validated_ex hash_ex))) = 201 \<and>
   (\<exists>i. requested_updates (snd (POST_supabase world_ex)) = [(verification_update world_ex, i)])"
proof -
  let ?d = "(4503603922337792, 53) :: double"
  have m: "Math_random world_ex = (4503599627370496, 53)"
    by (simp add: world_ex_def)
  have r: "unit_double (Math_random world_ex)"
    unfolding m by (simp add: unit_double_def round53_def bit_length.simps)
  have v: "double_value (Math_random world_ex) = 1 / 2"
    unfolding m by (simp add: double_value_def)
  have c: "verificationCode world_ex = ''550000''"
    by (rule verificationCode_half [OF m])
  have l: "length (verificationCode world_ex) = 6"
    by (simp add: c)
  have h: "random_code (Math_random world_ex) = 550000"
    unfolding m by (rule half_code)
  have r': "unit_double (Math_random (world_ex\<lparr>Math_random := ?d\<rparr>))"
    by (simp add: unit_double_def round53_def bit_length.simps)
  have d: "Math_random (world_ex\<lparr>Math_random := ?d\<rparr>) = ?d"
    by simp
  have i1: "real 550000 + 1 / 2 ^ 33 \<le> 100000 + 900000 * double_value ?d"
    by (simp add: double_value_def)
  have i2: "100000 + 900000 * double_value ?d < real 550000 + 1 - 1 / 2 ^ 33"
    by (simp add: double_value_def)
  have n: "Date_now world_ex + 900000 = 1700000900250"
    by (simp add: world_ex_def)
  have s: "fst (POST_supabase world_ex) =
     Returned (created (stored_row (new_user_row world_ex validated_ex hash_ex)))"
    by (simp add: POST_supabase_registers [OF registration_run_ex])
  have s201: "status (created (stored_row (new_user_row world_ex validated_ex hash_ex))) = 201"
    by (rule created_facts)
  have u: "verification_update world_ex =
     Obj [(''verification_code'', Str ''550000''),
          (''verification_code_expires'', Str ''2023-11-14T22:28:20.250Z'')]"
    by (simp add: verification_update_def expiresAt_def c n toISOString_expiry_ex)
  note t = verification_code_six_digits [OF r]
  note t' = verification_code_six_digits [OF r', unfolded d]
  from t h
  have o: "real 550000 - 1 / 2 ^ 33 \<le> 100000 + 900000 * double_value (Math_random world_ex) \<and>
    100000 + 900000 * double_value (Math_random world_ex) < real 550000 + 1 + 1 / 2 ^ 33"
    by blast
  from t' i1 i2 have rc: "random_code ?d = 550000" by blast
  have "(100000::nat) \<le> 123456 \<and> (123456::nat) \<le> 999999" by simp
  with t
  have e: "\<exists>d. unit_double d \<and> random_code d = 123456 \<and>
        verificationCode (world_ex\<lparr>Math_random := d\<rparr>) = nat_to_string 123456"
    by blast
  from t s s201
  have x: "\<exists>i. requested_updates (snd (POST_supabase world_ex)) = [(verification_update world_ex, i)]"
    by blast
  from r' have r'': "unit_double ?d" by simp
  from r v c l h o r'' i1 i2 rc e u s s201 x show ?thesis by blast
qed

end
